theory Spec2Isabelle
  imports Complex_Main "HOL-Library.Char_ord" "HOL-Library.List_Lexorder" "HOL-Library.Multiset"
begin

section \<open>Data model of the sync service\<close>

text \<open>
  The vault as the sync service reads it: \<open>getAbstractFileByPath\<close> finds a file or a
  folder at a path, \<open>getFiles\<close> lists the files only. A file carries \<open>stat.mtime\<close>
  (milliseconds, an integer) and the bytes \<open>readBinary\<close> returns.
\<close>

type_synonym bytes = "nat list"

datatype abstract_file = TFile int bytes | TFolder

type_synonym vault = "(string \<times> abstract_file) list"

definition getAbstractFileByPath :: "vault \<Rightarrow> string \<Rightarrow> abstract_file option" where
  "getAbstractFileByPath v p = map_of v p"

definition getFiles :: "vault \<Rightarrow> (string \<times> int) list" where
  "getFiles v = concat (map (\<lambda>(p, f). case f of TFile m content \<Rightarrow> [(p, m)] | TFolder \<Rightarrow> []) v)"

definition vault_delete :: "vault \<Rightarrow> string \<Rightarrow> vault" where
  "vault_delete v p = filter (\<lambda>(q, f). q \<noteq> p) v"

text \<open>
  The journal state the node hands out as JSON text: per path the fields the sync service
  reads, \<open>mtime\<close> (an unsigned 64-bit count, written in full) and \<open>is_deleted\<close>.
  \<open>None\<close> for the whole journal stands for a text \<open>JSON.parse\<close> rejects or an object
  with no \<open>files\<close>: the handler then goes on with no tombstones.
\<close>

record file_metadata =
  mtime :: nat
  is_deleted :: bool

type_synonym journal = "(string \<rightharpoonup> file_metadata) option"

text \<open>An entry of a \<open>SYNC_RESPONSE\<close>: the modification time travels as a string.\<close>

record remote_file =
  rpath :: string
  rmtime :: string
  isDeleted :: bool

datatype change_type = Push | Pull | Delete

record SyncChange =
  cpath :: string
  ctype :: change_type
  reason :: string

text \<open>A \<open>FILE_CHUNK\<close> as it travels, and the transfer status shown to observers.\<close>

record chunk_msg =
  filePath :: string
  chunkIndex :: nat
  totalChunks :: nat
  cdata :: bytes
  nonce :: bytes

record session_offer =
  deviceId :: string
  ephemeralPublicKey :: string
  offerSignature :: string

datatype message =
    SESSION_OFFER session_offer
  | SESSION_ANSWER session_offer
  | SYNC_REQUEST
  | SYNC_RESPONSE "remote_file list"
  | FILE_REQUEST string
  | FILE_DELETE string
  | FILE_CHUNK chunk_msg

text \<open>What JavaScript throws where the model follows it: a failed conversion, a refused offer.\<close>

datatype js_error = SyntaxError | OfferError

datatype direction = incoming | outgoing

datatype transfer_state = pending | transferring | completed | failed

text \<open>
  A JavaScript number that comes out of a division of two counts: the quotient (standing
  for the double nearest to it), or what a zero divisor gives.
\<close>

datatype js_number = Fin rat | Infinity | NaN

definition js_div :: "nat \<Rightarrow> nat \<Rightarrow> js_number" where
  "js_div a b = (if b = 0 then (if a = 0 then NaN else Infinity)
                 else Fin (of_nat a / of_nat b))"

record TransferStatus =
  tid :: string
  tfilePath :: string
  tpeerId :: string
  tdirection :: direction
  progress :: js_number
  totalSize :: "nat option"
  tstate :: transfer_state
  terror :: "string option"

text \<open>
  What a handler does to the outside, in order: a message handed to the transport, a file
  removed from or written to the vault, a journal call on the node, an outbound transfer
  started (\<open>transferFile\<close> is not awaited), an event for the observers.
\<close>

datatype effect =
    Send string message
  | VaultDelete string
  | MarkFileDeleted string
  | WriteBinary string bytes
  | UpdateFile string bytes
  | TransferFile string string string
  | Trigger string TransferStatus
  | Notice string

record incoming_transfer =
  chunks :: "(nat \<times> chunk_msg) list"
  total :: nat
  tpath :: string

text \<open>
  The fields of \<open>SyncService\<close> and of the collaborators it reads: the vault of the app,
  whether the bridge has a node and a module, the node's journal, the security service's
  device id and session keys.
\<close>

record sync_service =
  vault :: vault
  node_ready :: bool
  module_ready :: bool
  transferManager_ready :: bool
  journal :: journal
  myDeviceId :: string
  sessionKeys :: "string \<rightharpoonup> string"
  pendingSessionOffers :: "string \<rightharpoonup> string"
  incomingChunks :: "string \<rightharpoonup> incoming_transfer"
  activeTransfers :: "string \<rightharpoonup> TransferStatus"
  remoteUpdateInProgress :: "string set"

section \<open>Reconciliation: \<open>handleSyncResponse\<close>\<close>

text \<open>
  \<open>JSON.parse\<close> reads a count as a double: the count itself below \<open>2^53\<close>, above it the
  nearest number with 53 significant bits, a tie going to the even one.
\<close>

fun bit_length :: "nat \<Rightarrow> nat" where
  "bit_length n = (if n = 0 then 0 else Suc (bit_length (n div 2)))"

declare bit_length.simps [simp del]

definition JSON_number :: "nat \<Rightarrow> nat" where
  "JSON_number n =
     (let unit = 2 ^ (bit_length n - 53);
          q = n div unit;
          r = n mod unit
      in if 2 * r < unit \<or> (2 * r = unit \<and> even q) then q * unit else (q + 1) * unit)"

text \<open>
  The handler collects the tombstones of the local journal in a plain object,
  \<open>myDeletedFiles\<close>, path to deletion time, and reads it with \<open>myDeletedFiles[path]\<close>.
  A plain object inherits the members of \<open>Object.prototype\<close>: reading a path that is the
  name of one, and that the handler did not store, yields that member, a function or an
  object. The name \<open>__proto__\<close> cannot be stored at all: the assignment of a number to it
  is ignored.
\<close>

definition Object_prototype_members :: "string list" where
  "Object_prototype_members =
     [''constructor'', ''__defineGetter__'', ''__defineSetter__'', ''hasOwnProperty'',
      ''__lookupGetter__'', ''__lookupSetter__'', ''isPrototypeOf'', ''propertyIsEnumerable'',
      ''toString'', ''valueOf'', ''__proto__'', ''toLocaleString'']"

datatype property_value = Missing | Stored nat | Inherited

definition myDeletedFiles :: "journal \<Rightarrow> string \<Rightarrow> property_value" where
  "myDeletedFiles j p =
     (let own =
        (if p = ''__proto__'' then None
         else case j of
           None \<Rightarrow> None
         | Some files \<Rightarrow>
             (case files p of
                None \<Rightarrow> None
              | Some md \<Rightarrow> if is_deleted md then Some (JSON_number (mtime md)) else None))
      in case own of
           Some myDeletionTime \<Rightarrow> Stored myDeletionTime
         | None \<Rightarrow> if p \<in> set Object_prototype_members then Inherited else Missing)"

text \<open>
  The body of the loop over the remote entries. \<open>BigInt\<close> is JavaScript's conversion of
  the entry's string, a parameter: \<open>None\<close> where it throws, which ends the handler.
  \<open>Number (remoteMtime - localMtime)\<close> rounds to a double; the rounding is monotone and
  \<open>2000\<close> and its neighbours are doubles, so the two comparisons are those on the
  integers. A stored deletion time of \<open>0\<close> is falsy and counts as no tombstone. An
  inherited member is truthy, and \<open>BigInt\<close> of it throws, which ends the handler too.
\<close>

definition remote_entry_changes ::
  "(string \<Rightarrow> int option) \<Rightarrow> vault \<Rightarrow> (string \<Rightarrow> property_value) \<Rightarrow> remote_file \<Rightarrow> js_error + SyncChange list" where
  "remote_entry_changes BigInt v deleted remoteFile =
     (let localFile = getAbstractFileByPath v (rpath remoteFile) in
      case BigInt (rmtime remoteFile) of
        None \<Rightarrow> Inl SyntaxError
      | Some remoteMtime \<Rightarrow>
          if isDeleted remoteFile then
            (case localFile of
               None \<Rightarrow> Inr []
             | Some f \<Rightarrow>
                 (let localMtime = (case f of TFile m content \<Rightarrow> m | TFolder \<Rightarrow> 0) in
                  if localMtime < remoteMtime
                  then Inr [\<lparr>cpath = rpath remoteFile, ctype = Delete,
                              reason = ''Remote deletion is newer''\<rparr>]
                  else Inr []))
          else
            (case localFile of
               None \<Rightarrow>
                 (case deleted (rpath remoteFile) of
                    Inherited \<Rightarrow> Inl SyntaxError
                  | Missing \<Rightarrow>
                      Inr [\<lparr>cpath = rpath remoteFile, ctype = Pull,
                             reason = ''New remote file''\<rparr>]
                  | Stored myDeletionTime \<Rightarrow>
                      if myDeletionTime \<noteq> 0 \<and> int myDeletionTime > remoteMtime
                      then Inr [\<lparr>cpath = rpath remoteFile, ctype = Push,
                                  reason = ''Local deletion is newer''\<rparr>]
                      else Inr [\<lparr>cpath = rpath remoteFile, ctype = Pull,
                                  reason = ''New remote file''\<rparr>])
             | Some (TFile localMtime content) \<Rightarrow>
                 (let diff = remoteMtime - localMtime in
                  if diff > 2000
                  then Inr [\<lparr>cpath = rpath remoteFile, ctype = Pull,
                              reason = ''Remote is newer''\<rparr>]
                  else if diff < - 2000
                  then Inr [\<lparr>cpath = rpath remoteFile, ctype = Push,
                              reason = ''Local is newer''\<rparr>]
                  else Inr [])
             | Some TFolder \<Rightarrow> Inr []))"

fun remote_loop ::
  "(string \<Rightarrow> int option) \<Rightarrow> vault \<Rightarrow> (string \<Rightarrow> property_value) \<Rightarrow> remote_file list \<Rightarrow> js_error + SyncChange list" where
  "remote_loop BigInt v deleted [] = Inr []"
| "remote_loop BigInt v deleted (remoteFile # rest) =
     (case remote_entry_changes BigInt v deleted remoteFile of
        Inl e \<Rightarrow> Inl e
      | Inr cs \<Rightarrow>
          (case remote_loop BigInt v deleted rest of
             Inl e \<Rightarrow> Inl e
           | Inr cs' \<Rightarrow> Inr (cs @ cs')))"

text \<open>The second loop: every local file whose path the remote list does not mention.\<close>

definition local_loop :: "vault \<Rightarrow> remote_file list \<Rightarrow> SyncChange list" where
  "local_loop v remoteFiles =
     map (\<lambda>(p, m). \<lparr>cpath = p, ctype = Push, reason = ''Remote missing file''\<rparr>)
       (filter (\<lambda>(p, m). p \<notin> set (map rpath remoteFiles)) (getFiles v))"

definition compute_changes ::
  "(string \<Rightarrow> int option) \<Rightarrow> sync_service \<Rightarrow> remote_file list \<Rightarrow> js_error + SyncChange list" where
  "compute_changes BigInt st remoteFiles =
     (case remote_loop BigInt (vault st) (myDeletedFiles (journal st)) remoteFiles of
        Inl e \<Rightarrow> Inl e
      | Inr cs \<Rightarrow> Inr (cs @ local_loop (vault st) remoteFiles))"

text \<open>
  \<open>executeSync\<close>: the plan carried out change by change. A delete removes the local file
  when it is still there and marks it in the journal; a pull asks the peer for the file; a
  push whose reason is the local deletion sends \<open>FILE_DELETE\<close>, any other push starts a
  transfer of the file when it is one.
\<close>

definition executeChange :: "string \<Rightarrow> string \<Rightarrow> sync_service \<Rightarrow> SyncChange \<Rightarrow> sync_service \<times> effect list" where
  "executeChange peerId sessionKey st change =
     (case ctype change of
        Delete \<Rightarrow>
          (let st0 = st\<lparr>remoteUpdateInProgress := insert (cpath change) (remoteUpdateInProgress st)\<rparr> in
           case getAbstractFileByPath (vault st0) (cpath change) of
             None \<Rightarrow> (st0, [])
           | Some f \<Rightarrow>
               (st0\<lparr>vault := vault_delete (vault st0) (cpath change)\<rparr>,
                [VaultDelete (cpath change), MarkFileDeleted (cpath change)]))
      | Pull \<Rightarrow> (st, [Send peerId (FILE_REQUEST (cpath change))])
      | Push \<Rightarrow>
          (if reason change = ''Local deletion is newer''
           then (st, [Send peerId (FILE_DELETE (cpath change))])
           else (case getAbstractFileByPath (vault st) (cpath change) of
                   Some (TFile m content) \<Rightarrow> (st, [TransferFile (cpath change) peerId sessionKey])
                 | _ \<Rightarrow> (st, []))))"

fun executeSync :: "string \<Rightarrow> string \<Rightarrow> sync_service \<Rightarrow> SyncChange list \<Rightarrow> sync_service \<times> effect list" where
  "executeSync peerId sessionKey st [] = (st, [])"
| "executeSync peerId sessionKey st (change # rest) =
     (let (st1, effs) = executeChange peerId sessionKey st change;
          (st2, effs') = executeSync peerId sessionKey st1 rest
      in (st2, effs @ effs'))"

text \<open>
  The handler's outcomes: it returns at once without a node or without a session key; a
  failed conversion ends it with the error; an empty plan is "up to date"; a plan of more
  than ten changes waits for the user's confirmation; any other plan runs at once.
\<close>

datatype sync_result =
    NoNode
  | NoSessionKey
  | Threw js_error
  | UpToDate
  | AwaitsConfirmation "SyncChange list"
  | Executed "SyncChange list" sync_service "effect list"

definition handleSyncResponse ::
  "(string \<Rightarrow> int option) \<Rightarrow> sync_service \<Rightarrow> string \<Rightarrow> remote_file list \<Rightarrow> sync_result" where
  "handleSyncResponse BigInt st peerId remoteFiles =
     (if \<not> node_ready st then NoNode
      else case sessionKeys st peerId of
        None \<Rightarrow> NoSessionKey
      | Some sessionKey \<Rightarrow>
          (case compute_changes BigInt st remoteFiles of
             Inl e \<Rightarrow> Threw e
           | Inr changes \<Rightarrow>
               if length changes = 0 then UpToDate
               else if length changes > 10 then AwaitsConfirmation changes
               else (let (st', effs) = executeSync peerId sessionKey st changes
                     in Executed changes st' effs)))"

text \<open>The action list a run of the handler arrived at, when it got that far.\<close>

fun plan_of :: "sync_result \<Rightarrow> SyncChange list option" where
  "plan_of UpToDate = Some []"
| "plan_of (AwaitsConfirmation cs) = Some cs"
| "plan_of (Executed cs st effs) = Some cs"
| "plan_of _ = None"

section \<open>Session handshake: \<open>initiateSession\<close> and the \<open>SESSION_OFFER\<close> branch\<close>

text \<open>
  \<open>createSessionOffer\<close> and \<open>handleSessionOffer\<close> belong to the security service and
  reach into the cryptographic module; they are parameters. \<open>createSessionOffer\<close> gives
  the offer to send and the key exchange to keep, or throws. \<open>handleSessionOffer\<close> gives
  the session keys it leaves behind together with an answer, with nothing to send, or
  with the error it threw.
\<close>

definition initiateSession ::
  "(string \<Rightarrow> (session_offer \<times> string) option) \<Rightarrow> sync_service \<Rightarrow> string \<Rightarrow> sync_service \<times> effect list" where
  "initiateSession createSessionOffer st peerId =
     (if pendingSessionOffers st peerId \<noteq> None then (st, [])
      else case createSessionOffer peerId of
        None \<Rightarrow> (st, [])
      | Some (offer, keyExchange) \<Rightarrow>
          (st\<lparr>pendingSessionOffers := (pendingSessionOffers st)(peerId \<mapsto> keyExchange)\<rparr>,
           [Send peerId (SESSION_OFFER offer)]))"

text \<open>
  What the branch does once the tie-break has let the offer through: the security service
  handles the offer, and an answer, when there is one, goes to the peer.
\<close>

definition answerSessionOffer ::
  "((string \<rightharpoonup> string) \<Rightarrow> string \<Rightarrow> session_offer \<Rightarrow> (js_error + session_offer option) \<times> (string \<rightharpoonup> string))
   \<Rightarrow> sync_service \<Rightarrow> string \<Rightarrow> session_offer \<Rightarrow> sync_service \<times> effect list" where
  "answerSessionOffer handleSessionOffer st peerId offer =
     (case handleSessionOffer (sessionKeys st) peerId offer of
        (Inl e, keys) \<Rightarrow> (st\<lparr>sessionKeys := keys\<rparr>, [])
      | (Inr None, keys) \<Rightarrow> (st\<lparr>sessionKeys := keys\<rparr>, [])
      | (Inr (Some answer), keys) \<Rightarrow>
          (st\<lparr>sessionKeys := keys\<rparr>, [Send peerId (SESSION_ANSWER answer)]))"

text \<open>
  The \<open>SESSION_OFFER\<close> branch of \<open>handleMessage\<close>. The two device ids are compared as
  JavaScript compares strings: position by position on the character codes, a proper prefix
  before its extensions.
\<close>

definition handleSessionOfferMessage ::
  "((string \<rightharpoonup> string) \<Rightarrow> string \<Rightarrow> session_offer \<Rightarrow> (js_error + session_offer option) \<times> (string \<rightharpoonup> string))
   \<Rightarrow> sync_service \<Rightarrow> string \<Rightarrow> session_offer \<Rightarrow> sync_service \<times> effect list" where
  "handleSessionOfferMessage handleSessionOffer st peerId offer =
     (if pendingSessionOffers st peerId \<noteq> None then
        (let peerDeviceId = deviceId offer in
         if myDeviceId st < peerDeviceId then (st, [])
         else answerSessionOffer handleSessionOffer
                (st\<lparr>pendingSessionOffers := (pendingSessionOffers st)(peerId := None)\<rparr>) peerId offer)
      else answerSessionOffer handleSessionOffer st peerId offer)"

section \<open>Inbound transfer: the \<open>FILE_CHUNK\<close> branch and \<open>reassembleAndWrite\<close>\<close>

text \<open>
  The chunk buffer is a JavaScript \<open>Map\<close>: \<open>set\<close> replaces the value of a key already
  there, in place, and appends a new key at the end; \<open>size\<close> counts the keys.
\<close>

fun Map_set :: "('k \<times> 'v) list \<Rightarrow> 'k \<Rightarrow> 'v \<Rightarrow> ('k \<times> 'v) list" where
  "Map_set [] k v = [(k, v)]"
| "Map_set ((k', v') # kvs) k v =
     (if k' = k then (k, v) # kvs else (k', v') # Map_set kvs k v)"

text \<open>
  \<open>decrypt_chunk\<close> is the transfer manager's, a parameter: the plaintext of a chunk
  under a session key, or \<open>None\<close> where it throws.
\<close>

fun decrypt_all :: "(chunk_msg \<Rightarrow> string \<Rightarrow> bytes option) \<Rightarrow> string \<Rightarrow> chunk_msg list \<Rightarrow> bytes list option" where
  "decrypt_all decrypt_chunk sessionKey [] = Some []"
| "decrypt_all decrypt_chunk sessionKey (chunkMsg # rest) =
     (case decrypt_chunk chunkMsg sessionKey of
        None \<Rightarrow> None
      | Some decrypted \<Rightarrow>
          (case decrypt_all decrypt_chunk sessionKey rest of
             None \<Rightarrow> None
           | Some parts \<Rightarrow> Some (decrypted # parts)))"

text \<open>
  \<open>reassembleAndWrite\<close>: the buffered chunks sorted by index, each decrypted, the parts
  concatenated and written; the journal is told so that the write is not sent back. A
  chunk that does not decrypt leaves the file untouched and raises a notice. (Creating the
  directory of the path and the later removal from \<open>remoteUpdateInProgress\<close> by a timer
  are left out.)
\<close>

definition reassembleAndWrite ::
  "(chunk_msg \<Rightarrow> string \<Rightarrow> bytes option) \<Rightarrow> sync_service \<Rightarrow> incoming_transfer \<Rightarrow> string \<Rightarrow> sync_service \<times> effect list" where
  "reassembleAndWrite decrypt_chunk st transfer sessionKey =
     (let sortedChunks = map snd (sort_key fst (chunks transfer)) in
      case decrypt_all decrypt_chunk sessionKey sortedChunks of
        None \<Rightarrow> (st, [Notice (''Failed to save received file: '' @ tpath transfer)])
      | Some decryptedParts \<Rightarrow>
          (let fileContent = concat decryptedParts;
               filePath = tpath transfer
           in (st\<lparr>remoteUpdateInProgress := insert filePath (remoteUpdateInProgress st)\<rparr>,
               [WriteBinary filePath fileContent]
               @ (if node_ready st then [UpdateFile filePath fileContent] else [])
               @ [Notice (''Received file: '' @ filePath)])))"

text \<open>
  The \<open>FILE_CHUNK\<close> branch of \<open>handleMessage\<close>. The status object sits in
  \<open>activeTransfers\<close> by reference, so the later writes to it (completed, progress 1) show
  there too. (The removal of a finished status after five seconds is a timer, left out.)
\<close>

definition handleFileChunk ::
  "(chunk_msg \<Rightarrow> string \<Rightarrow> bytes option) \<Rightarrow> (string \<Rightarrow> (session_offer \<times> string) option)
   \<Rightarrow> sync_service \<Rightarrow> string \<Rightarrow> chunk_msg \<Rightarrow> sync_service \<times> effect list" where
  "handleFileChunk decrypt_chunk createSessionOffer st peerId msg =
     (let fileKey = peerId @ '':'' @ filePath msg;
          status0 = (case activeTransfers st fileKey of
                       Some s \<Rightarrow> s
                     | None \<Rightarrow> \<lparr>tid = fileKey, tfilePath = filePath msg, tpeerId = peerId,
                                tdirection = incoming, progress = Fin 0,
                                totalSize = Some (totalChunks msg), tstate = transferring,
                                terror = None\<rparr>);
          status = status0\<lparr>progress := js_div (chunkIndex msg + 1) (totalChunks msg)\<rparr>;
          st1 = st\<lparr>activeTransfers := (activeTransfers st)(fileKey \<mapsto> status)\<rparr>;
          effs1 = [Trigger ''transfer-progress'' status]
      in case sessionKeys st1 peerId of
           None \<Rightarrow>
             (let (st2, effs2) = initiateSession createSessionOffer st1 peerId
              in (st2, effs1 @ effs2))
         | Some sessionKey \<Rightarrow>
             (let (transfer0, effs2) =
                    (case incomingChunks st1 fileKey of
                       None \<Rightarrow> (\<lparr>chunks = [], total = totalChunks msg, tpath = filePath msg\<rparr>,
                                 [Trigger ''transfer-start'' status])
                     | Some t \<Rightarrow> (t, []));
                  transfer = transfer0\<lparr>chunks := Map_set (chunks transfer0) (chunkIndex msg) msg\<rparr>;
                  st2 = st1\<lparr>incomingChunks := (incomingChunks st1)(fileKey \<mapsto> transfer)\<rparr>
              in if length (chunks transfer) = total transfer then
                   (let status' = status\<lparr>tstate := completed, progress := Fin 1\<rparr>;
                        st3 = st2\<lparr>activeTransfers := (activeTransfers st2)(fileKey \<mapsto> status')\<rparr>;
                        (st4, effs3) = reassembleAndWrite decrypt_chunk st3 transfer sessionKey
                    in (st4\<lparr>incomingChunks := (incomingChunks st4)(fileKey := None)\<rparr>,
                        effs1 @ effs2 @ [Trigger ''transfer-complete'' status'] @ effs3))
                 else (st2, effs1 @ effs2)))"

text \<open>Chunks handled one after the other, as they arrive from one peer.\<close>

fun deliver ::
  "(chunk_msg \<Rightarrow> string \<Rightarrow> bytes option) \<Rightarrow> (string \<Rightarrow> (session_offer \<times> string) option)
   \<Rightarrow> sync_service \<Rightarrow> string \<Rightarrow> chunk_msg list \<Rightarrow> sync_service \<times> effect list" where
  "deliver decrypt_chunk createSessionOffer st peerId [] = (st, [])"
| "deliver decrypt_chunk createSessionOffer st peerId (msg # rest) =
     (let (st1, effs1) = handleFileChunk decrypt_chunk createSessionOffer st peerId msg;
          (st2, effs2) = deliver decrypt_chunk createSessionOffer st1 peerId rest
      in (st2, effs1 @ effs2))"

text \<open>The files an effect list writes, in order.\<close>

fun written :: "effect list \<Rightarrow> (string \<times> bytes) list" where
  "written [] = []"
| "written (WriteBinary p content # effs) = (p, content) # written effs"
| "written (e # effs) = written effs"

section \<open>Outbound transfer: \<open>transferFile\<close>\<close>

text \<open>
  Modelled from the spec: \<open>prepare_transfer\<close> of the transfer manager, whose code is in
  the compiled module and not in the sources read here. The spec: "split file bytes into
  fixed-size chunks (reference: 64KB); encrypt each chunk independently under the session
  key with a fresh nonce per chunk, attaching filePath, chunkIndex, totalChunks". Zero
  bytes split into zero chunks, the case \<open>transferFile\<close> provides for. The cipher
  \<open>encrypt_data\<close> (ciphertext and nonce for a key and a plaintext) is a parameter.
\<close>

definition CHUNK_SIZE :: nat where
  "CHUNK_SIZE = 65536"

function split_chunks :: "nat \<Rightarrow> bytes \<Rightarrow> bytes list" where
  "split_chunks n xs =
     (if n = 0 \<or> xs = [] then [] else take n xs # split_chunks n (drop n xs))"
  by pat_completeness auto
termination
  by (relation "measure (\<lambda>(n, xs). length xs)") auto

declare split_chunks.simps [simp del]

definition prepare_transfer ::
  "(string \<Rightarrow> bytes \<Rightarrow> bytes \<times> bytes) \<Rightarrow> string \<Rightarrow> bytes \<Rightarrow> string \<Rightarrow> chunk_msg list" where
  "prepare_transfer encrypt_data file_path content sessionKey =
     (let parts = split_chunks CHUNK_SIZE content in
      map (\<lambda>(i, part).
             (let encrypted = encrypt_data sessionKey part in
              \<lparr>filePath = file_path, chunkIndex = i, totalChunks = length parts,
               cdata = fst encrypted, nonce = snd encrypted\<rparr>))
          (enumerate 0 parts))"

text \<open>
  \<open>transferFile\<close>, for the file at a path of the vault. Without a transfer manager it
  returns at once. When the prepared chunk list is empty and the content is empty, and the
  module is there, it sends one chunk of its own making: index 0 of 1, the encryption of
  zero bytes. Then every prepared chunk goes out, with a progress event each. A file that
  cannot be read ends in the failed state. (The pause between chunks and the removal of the
  finished status by a timer are left out.)
\<close>

definition transferFile ::
  "(string \<Rightarrow> bytes \<Rightarrow> bytes \<times> bytes) \<Rightarrow> sync_service \<Rightarrow> string \<Rightarrow> string \<Rightarrow> string \<Rightarrow> sync_service \<times> effect list" where
  "transferFile encrypt_data st file_path peerId sessionKey =
     (if \<not> transferManager_ready st then (st, [])
      else
        (let fileKey = peerId @ '':'' @ file_path;
             status = \<lparr>tid = fileKey, tfilePath = file_path, tpeerId = peerId,
                       tdirection = outgoing, progress = Fin 0, totalSize = None,
                       tstate = pending, terror = None\<rparr>;
             effs0 = [Trigger ''transfer-start'' status]
         in case getAbstractFileByPath (vault st) file_path of
              Some (TFile m contentArray) \<Rightarrow>
                (let chunkList = prepare_transfer encrypt_data file_path contentArray sessionKey;
                     status1 = status\<lparr>totalSize := Some (length chunkList), tstate := transferring\<rparr>;
                     effsEmpty =
                       (if length chunkList = 0 then
                          (if length contentArray = 0 then
                             (if module_ready st then
                                (let encrypted = encrypt_data sessionKey [] in
                                 [Send peerId (FILE_CHUNK
                                    \<lparr>filePath = file_path, chunkIndex = 0, totalChunks = 1,
                                     cdata = fst encrypted, nonce = snd encrypted\<rparr>)])
                              else [])
                           else [])
                        else []);
                     effsLoop =
                       concat (map (\<lambda>(i, chunk).
                                      [Send peerId (FILE_CHUNK chunk),
                                       Trigger ''transfer-progress''
                                         (status1\<lparr>progress := js_div (i + 1) (length chunkList)\<rparr>)])
                                   (enumerate 0 chunkList));
                     status2 = status1\<lparr>tstate := completed, progress := Fin 1\<rparr>
                 in (st\<lparr>activeTransfers := (activeTransfers st)(fileKey \<mapsto> status2)\<rparr>,
                     effs0 @ effsEmpty @ effsLoop
                     @ [Trigger ''transfer-complete'' status2,
                        Notice (''Sent '' @ file_path @ '' to peer'')]))
            | _ \<Rightarrow>
                (let statusF = status\<lparr>tstate := failed, terror := Some ''read failed''\<rparr>
                 in (st\<lparr>activeTransfers := (activeTransfers st)(fileKey \<mapsto> statusF)\<rparr>,
                     effs0 @ [Trigger ''transfer-error'' statusF,
                              Notice ''Transfer failed'']))))"

text \<open>The \<open>FILE_CHUNK\<close> messages an effect list hands to the transport, in order.\<close>

fun sent_chunks :: "effect list \<Rightarrow> chunk_msg list" where
  "sent_chunks [] = []"
| "sent_chunks (Send p (FILE_CHUNK c) # effs) = c # sent_chunks effs"
| "sent_chunks (e # effs) = sent_chunks effs"

section \<open>Pairing: \<open>handlePairingResponse\<close>\<close>

record pairing_response =
  requestId :: string
  responderDeviceId :: string
  responderName :: string
  responderPublicKey :: string
  signature :: string
  status :: string

text \<open>
  The security service: whether the module is loaded, the public key of the identity once
  initialised, the requests that wait for a response, the active pairing code.
\<close>

record security_service =
  wasm_ready :: bool
  identity :: "string option"
  pendingRequests :: "string set"
  activePairingCode :: "string option"

text \<open>
  What the handler does to the outside: the promise of the pairing attempt resolved or
  rejected with a message, the \<open>pairing_success\<close> event with device id and name.
\<close>

datatype pairing_event =
    Resolved string bool
  | Rejected string string
  | pairing_success string string

text \<open>
  \<open>verify_signature\<close> is the module's, a parameter: public key, signed bytes, signature;
  \<open>None\<close> where it throws, which leaves the handler before the request is removed (the
  caller swallows the error). The signed bytes are the request id followed by the
  initiator's own public key.
\<close>

definition handlePairingResponse ::
  "(string \<Rightarrow> string \<Rightarrow> string \<Rightarrow> bool option) \<Rightarrow> security_service \<Rightarrow> pairing_response
   \<Rightarrow> security_service \<times> pairing_event list" where
  "handlePairingResponse verify_signature sec msg =
     (if requestId msg \<notin> pendingRequests sec then (sec, [])
      else
        (let removed = sec\<lparr>pendingRequests := pendingRequests sec - {requestId msg}\<rparr> in
         if status msg = ''accepted'' then
           (if wasm_ready sec then
              (case identity sec of
                 None \<Rightarrow> (removed, [])
               | Some publicKey \<Rightarrow>
                   (let dataToVerify = requestId msg @ publicKey in
                    case verify_signature (responderPublicKey msg) dataToVerify (signature msg) of
                      None \<Rightarrow> (sec, [])
                    | Some isValid \<Rightarrow>
                        if isValid
                        then (removed, [Resolved (requestId msg) True,
                                     pairing_success (responderDeviceId msg) (responderName msg)])
                        else (removed, [Rejected (requestId msg) ''Invalid signature from peer''])))
            else (removed, []))
         else (removed, [Rejected (requestId msg) ''Pairing rejected by peer''])))"

text \<open>
  The plugin's listener for \<open>pairing_success\<close>: the device id joins the paired devices of
  the settings unless it is there already. This list is the trust a later session checks.
\<close>

fun on_pairing_events :: "string list \<Rightarrow> pairing_event list \<Rightarrow> string list" where
  "on_pairing_events paired [] = paired"
| "on_pairing_events paired (pairing_success dev name # evs) =
     on_pairing_events (if dev \<in> set paired then paired else paired @ [dev]) evs"
| "on_pairing_events paired (ev # evs) = on_pairing_events paired evs"

section \<open>Discovery: \<open>P2PDiscoveryService\<close>\<close>

record DiscoveredPeerData =
  peer_id :: string
  peer_name :: string
  device_id :: string
  last_seen_timestamp :: int
  addresses :: "string list"
  service_port :: nat

datatype discovery_event =
    discovery_started
  | discovery_stopped
  | discovery_error
  | peer_discovered DiscoveredPeerData
  | peer_updated DiscoveredPeerData
  | peer_lost DiscoveredPeerData
  | peers_cleared

text \<open>
  The service's fields, and the timeouts of the runtime it has set: \<open>scheduled\<close> lists
  the timeouts that have neither fired nor been cleared, each with the peer id its callback
  will remove; \<open>nextTimer\<close> numbers the handles. A handle is an object, so the test
  \<open>if (timer)\<close> asks only whether the table has one for the peer.
\<close>

record discovery_service =
  has_node :: bool
  peers :: "string \<rightharpoonup> DiscoveredPeerData"
  isDiscovering :: bool
  ttlTimers :: "string \<rightharpoonup> nat"
  broadcastInterval :: bool
  pruneInterval :: bool
  scheduled :: "(nat \<times> string) list"
  nextTimer :: nat

definition constructor :: discovery_service where
  "constructor = \<lparr>has_node = False, peers = Map.empty, isDiscovering = False,
                   ttlTimers = Map.empty, broadcastInterval = False, pruneInterval = False,
                   scheduled = [], nextTimer = 1\<rparr>"

definition clearTimeout :: "nat \<Rightarrow> discovery_service \<Rightarrow> discovery_service" where
  "clearTimeout timer s = s\<lparr>scheduled := filter (\<lambda>(h, p). h \<noteq> timer) (scheduled s)\<rparr>"

definition clearPeerTTLTimer :: "string \<Rightarrow> discovery_service \<Rightarrow> discovery_service" where
  "clearPeerTTLTimer peerId s =
     (case ttlTimers s peerId of
        None \<Rightarrow> s
      | Some timer \<Rightarrow> (clearTimeout timer s)\<lparr>ttlTimers := (ttlTimers s)(peerId := None)\<rparr>)"

definition resetPeerTTL :: "string \<Rightarrow> discovery_service \<Rightarrow> discovery_service" where
  "resetPeerTTL peerId s =
     (let s1 = clearPeerTTLTimer peerId s;
          timer = nextTimer s1
      in s1\<lparr>scheduled := scheduled s1 @ [(timer, peerId)],
             nextTimer := timer + 1,
             ttlTimers := (ttlTimers s1)(peerId \<mapsto> timer)\<rparr>)"

definition clearAllTTLTimers :: "discovery_service \<Rightarrow> discovery_service" where
  "clearAllTTLTimers s =
     s\<lparr>scheduled := filter (\<lambda>(h, p). h \<notin> ran (ttlTimers s)) (scheduled s),
       ttlTimers := Map.empty\<rparr>"

definition initialize :: "discovery_service \<Rightarrow> discovery_service" where
  "initialize s = s\<lparr>has_node := True\<rparr>"

text \<open>
  \<open>startDiscovery\<close>; \<open>started\<close> tells whether the node and the transport came up. Without
  a node it throws before it touches anything.
\<close>

definition startDiscovery :: "bool \<Rightarrow> discovery_service \<Rightarrow> discovery_service \<times> discovery_event list" where
  "startDiscovery started s =
     (if isDiscovering s then (s, [])
      else if \<not> has_node s then (s, [])
      else if started
      then (s\<lparr>isDiscovering := True, broadcastInterval := True, pruneInterval := True\<rparr>,
            [discovery_started])
      else (s\<lparr>isDiscovering := False\<rparr>, [discovery_error]))"

definition stopDiscovery :: "discovery_service \<Rightarrow> discovery_service \<times> discovery_event list" where
  "stopDiscovery s =
     (if \<not> isDiscovering s then (s, [])
      else (clearAllTTLTimers
              (s\<lparr>broadcastInterval := False, pruneInterval := False, isDiscovering := False\<rparr>),
            [discovery_stopped]))"

text \<open>
  \<open>handleDiscoveryMessage\<close>. The node's verdict on the announcement and the parse of its
  text come with the message: \<open>isNewOrUpdated\<close> is \<open>None\<close> where the node throws,
  \<open>data\<close> is \<open>None\<close> where \<open>JSON.parse\<close> throws; either way the handler logs and
  returns.
\<close>

definition handleDiscoveryMessage ::
  "bool option \<Rightarrow> DiscoveredPeerData option \<Rightarrow> discovery_service \<Rightarrow> discovery_service \<times> discovery_event list" where
  "handleDiscoveryMessage isNewOrUpdated data s =
     (if \<not> has_node s then (s, [])
      else case isNewOrUpdated of
        None \<Rightarrow> (s, [])
      | Some False \<Rightarrow> (s, [])
      | Some True \<Rightarrow>
          (case data of
             None \<Rightarrow> (s, [])
           | Some peer \<Rightarrow>
               (let ev = (if peers s (peer_id peer) = None
                          then peer_discovered peer else peer_updated peer);
                    s1 = s\<lparr>peers := (peers s)(peer_id peer \<mapsto> peer)\<rparr>
                in (resetPeerTTL (peer_id peer) s1, [ev]))))"

definition addPeer :: "DiscoveredPeerData \<Rightarrow> discovery_service \<Rightarrow> discovery_service \<times> discovery_event list" where
  "addPeer peer s =
     (if \<not> has_node s then (s, [])
      else
        (let isNewPeer = (peers s (peer_id peer) = None);
             s1 = s\<lparr>peers := (peers s)(peer_id peer \<mapsto> peer)\<rparr>;
             s2 = resetPeerTTL (peer_id peer) s1
         in (s2, [if isNewPeer then peer_discovered peer else peer_updated peer])))"

definition removePeer :: "string \<Rightarrow> discovery_service \<Rightarrow> discovery_service \<times> discovery_event list" where
  "removePeer peerId s =
     (case peers s peerId of
        None \<Rightarrow> (s, [])
      | Some peer \<Rightarrow>
          (clearPeerTTLTimer peerId (s\<lparr>peers := (peers s)(peerId := None)\<rparr>), [peer_lost peer]))"

definition clearPeers :: "discovery_service \<Rightarrow> discovery_service \<times> discovery_event list" where
  "clearPeers s = (clearAllTTLTimers (s\<lparr>peers := Map.empty\<rparr>), [peers_cleared])"

definition cleanup :: "discovery_service \<Rightarrow> discovery_service \<times> discovery_event list" where
  "cleanup s =
     (let (s1, evs1) = stopDiscovery s; (s2, evs2) = clearPeers s1 in (s2, evs1 @ evs2))"

text \<open>
  A timeout of the runtime fires: it leaves the pending ones and its callback removes the
  peer it was set for. A handle that is not pending (cleared, or fired before) does
  nothing.
\<close>

definition ttl_expired :: "nat \<Rightarrow> discovery_service \<Rightarrow> discovery_service \<times> discovery_event list" where
  "ttl_expired timer s =
     (case map_of (scheduled s) timer of
        None \<Rightarrow> (s, [])
      | Some peerId \<Rightarrow> removePeer peerId (clearTimeout timer s))"

text \<open>The public operations, and whatever the runtime does in between, as one step.\<close>

datatype discovery_op =
    Initialize
  | StartDiscovery bool
  | StopDiscovery
  | Announcement "bool option" "DiscoveredPeerData option"
  | AddPeer DiscoveredPeerData
  | RemovePeer string
  | ClearPeers
  | Cleanup
  | TtlExpired nat

fun discovery_step :: "discovery_op \<Rightarrow> discovery_service \<Rightarrow> discovery_service \<times> discovery_event list" where
  "discovery_step Initialize s = (initialize s, [])"
| "discovery_step (StartDiscovery started) s = startDiscovery started s"
| "discovery_step StopDiscovery s = stopDiscovery s"
| "discovery_step (Announcement isNewOrUpdated data) s = handleDiscoveryMessage isNewOrUpdated data s"
| "discovery_step (AddPeer peer) s = addPeer peer s"
| "discovery_step (RemovePeer peerId) s = removePeer peerId s"
| "discovery_step ClearPeers s = clearPeers s"
| "discovery_step Cleanup s = cleanup s"
| "discovery_step (TtlExpired timer) s = ttl_expired timer s"

fun discovery_run :: "discovery_op list \<Rightarrow> discovery_service \<Rightarrow> discovery_service" where
  "discovery_run [] s = s"
| "discovery_run (op # ops) s = discovery_run ops (fst (discovery_step op s))"

text \<open>
  The invariant: a peer with a TTL timer in the table is a peer of the peer table, and a
  pending timeout is the one the table holds for its peer.
\<close>

definition timers_of_known_peers :: "discovery_service \<Rightarrow> bool" where
  "timers_of_known_peers s \<longleftrightarrow>
     dom (ttlTimers s) \<subseteq> dom (peers s) \<and>
     (\<forall>(h, p) \<in> set (scheduled s). ttlTimers s p = Some h)"

section \<open>Notions of the statements about transfers\<close>

text \<open>
  The chunks of one transfer, all of them: indices \<open>0\<close> to \<open>n - 1\<close> in order, each
  naming the same path and the same total \<open>n\<close>.
\<close>

definition complete_transfer :: "string \<Rightarrow> chunk_msg list \<Rightarrow> bool" where
  "complete_transfer p cs \<longleftrightarrow>
     cs \<noteq> [] \<and> map chunkIndex cs = [0..<length cs] \<and>
     list_all (\<lambda>c. filePath c = p \<and> totalChunks c = length cs) cs"

text \<open>
  The chunks buffered for a transfer, none when the transfer has no entry; and a chunk that
  arrives in index order: the buffer holds the indices below its own, and the total
  declared when the transfer began is the chunk's.
\<close>

definition buffered :: "sync_service \<Rightarrow> string \<Rightarrow> (nat \<times> chunk_msg) list" where
  "buffered st fileKey = (case incomingChunks st fileKey of None \<Rightarrow> [] | Some t \<Rightarrow> chunks t)"

definition arrives_in_order :: "sync_service \<Rightarrow> string \<Rightarrow> chunk_msg \<Rightarrow> bool" where
  "arrives_in_order st peerId msg \<longleftrightarrow>
     (let fileKey = peerId @ '':'' @ filePath msg in
      map fst (buffered st fileKey) = [0..<chunkIndex msg] \<and>
      (case incomingChunks st fileKey of None \<Rightarrow> True | Some t \<Rightarrow> total t = totalChunks msg))"

section \<open>Concrete inputs\<close>

text \<open>
  A stand-in for JavaScript's \<open>BigInt\<close> on the strings the peers write with \<open>String\<close>
  of a whole number: decimal digits, with a minus sign for a negative one; the empty string
  is zero. It is used only at such strings, in the examples; the theorems hold for every
  conversion.
\<close>

definition digit_of :: "char \<Rightarrow> nat option" where
  "digit_of c =
     (let code = (of_char c :: nat)
      in if 48 \<le> code \<and> code \<le> 57 then Some (code - 48) else None)"

fun digits_value :: "nat \<Rightarrow> string \<Rightarrow> nat option" where
  "digits_value acc [] = Some acc"
| "digits_value acc (c # cs) =
     (case digit_of c of None \<Rightarrow> None | Some d \<Rightarrow> digits_value (10 * acc + d) cs)"

definition BigInt_decimal :: "string \<Rightarrow> int option" where
  "BigInt_decimal s =
     (case s of
        [] \<Rightarrow> Some 0
      | c # cs \<Rightarrow>
          if c = CHR ''-''
          then (if cs = [] then None else map_option (\<lambda>n. - int n) (digits_value 0 cs))
          else map_option int (digits_value 0 s))"

text \<open>
  Device A of the spec's scenario: \<open>note.md\<close> with modification time 100, a node, a
  session with the peer \<open>b1\<close>, an empty journal.
\<close>

definition device_A :: sync_service where
  "device_A =
     \<lparr>vault = [(''note.md'', TFile 100 [72, 49])],
      node_ready = True, module_ready = True, transferManager_ready = True,
      journal = Some Map.empty, myDeviceId = ''dA'',
      sessionKeys = [''b1'' \<mapsto> ''key''],
      pendingSessionOffers = Map.empty, incomingChunks = Map.empty,
      activeTransfers = Map.empty, remoteUpdateInProgress = {}\<rparr>"

text \<open>
  A cipher for the examples: the ciphertext is the plaintext with every byte moved up by
  one, the nonce is fixed; decryption moves the bytes back and refuses a zero byte.
\<close>

definition example_encrypt :: "string \<Rightarrow> bytes \<Rightarrow> bytes \<times> bytes" where
  "example_encrypt sessionKey plaintext = (map Suc plaintext, [7])"

definition example_decrypt :: "chunk_msg \<Rightarrow> string \<Rightarrow> bytes option" where
  "example_decrypt chunk sessionKey =
     (if 0 \<in> set (cdata chunk) then None else Some (map (\<lambda>b. b - 1) (cdata chunk)))"

definition example_chunk :: "nat \<Rightarrow> bytes \<Rightarrow> chunk_msg" where
  "example_chunk i ciphertext =
     \<lparr>filePath = ''a.md'', chunkIndex = i, totalChunks = 3, cdata = ciphertext, nonce = [7]\<rparr>"

text \<open>
  A security service for the examples: it answers an offer whose signature is the text
  \<open>signed:\<close> followed by the offered key, and throws on any other.
\<close>

definition example_handleSessionOffer ::
  "(string \<rightharpoonup> string) \<Rightarrow> string \<Rightarrow> session_offer \<Rightarrow> (js_error + session_offer option) \<times> (string \<rightharpoonup> string)" where
  "example_handleSessionOffer keys peerId offer =
     (if offerSignature offer = ''signed:'' @ ephemeralPublicKey offer
      then (Inr (Some \<lparr>deviceId = ''dM'', ephemeralPublicKey = ''eM'', offerSignature = ''signed:eM''\<rparr>),
            keys(peerId \<mapsto> ''shared''))
      else (Inl OfferError, keys))"

text \<open>
  A signature check for the examples: a signature is valid when it spells out the public
  key and the signed text. The initiator of the examples waits for the response to its
  request \<open>r1\<close>.
\<close>

definition example_verify :: "string \<Rightarrow> string \<Rightarrow> string \<Rightarrow> bool option" where
  "example_verify publicKey signedData sig = Some (sig = ''sig('' @ publicKey @ '','' @ signedData @ '')'')"

definition initiator :: security_service where
  "initiator = \<lparr>wasm_ready = True, identity = Some ''pkA'', pendingRequests = {''r1''},
                 activePairingCode = None\<rparr>"

text \<open>The laptop of the spec's discovery scenario.\<close>

definition laptop :: DiscoveredPeerData where
  "laptop = \<lparr>peer_id = ''a1'', peer_name = ''Laptop'', device_id = ''dA'',
              last_seen_timestamp = 0, addresses = [''10.0.0.2''], service_port = 7000\<rparr>"

section \<open>Properties of the reconciliation\<close>

text \<open>
  A count below \<open>2^53\<close> comes through \<open>JSON.parse\<close> as it is; the first count above
  does not.
\<close>

lemma bit_length_le: "n < 2 ^ k \<Longrightarrow> bit_length n \<le> k"
proof (induction k arbitrary: n)
  case 0
  then show ?case by (simp add: bit_length.simps)
next
  case (Suc k)
  show ?case
  proof (cases "n = 0")
    case True
    then show ?thesis by (simp add: bit_length.simps)
  next
    case False
    from Suc.prems have "n div 2 < 2 ^ k" by simp
    then have "bit_length (n div 2) \<le> k" by (rule Suc.IH)
    with False show ?thesis by (subst bit_length.simps) simp
  qed
qed

lemma JSON_number_safe: "n < 2 ^ 53 \<Longrightarrow> JSON_number n = n"
proof -
  assume "n < 2 ^ 53"
  then have "bit_length n \<le> 53" by (rule bit_length_le)
  then have "bit_length n - 53 = 0" by simp
  then show ?thesis by (simp add: JSON_number_def)
qed

lemma JSON_number_rounds: "JSON_number 9007199254740993 = 9007199254740992"
proof -
  have "bit_length 9007199254740993 = 54" by (simp add: bit_length.simps)
  then show ?thesis by (simp add: JSON_number_def)
qed

text \<open>
  An entry whose modification time converts and whose path is not the name of a member of
  \<open>Object.prototype\<close> does not end the handler. When no entry of the list ends it, the
  loop over the remote entries gives the changes of each entry one after the other.
\<close>

lemma safe_entry_answers:
  "BigInt (rmtime e) \<noteq> None \<Longrightarrow> rpath e \<notin> set Object_prototype_members \<Longrightarrow>
   \<exists>cs. remote_entry_changes BigInt v (myDeletedFiles j) e = Inr cs"
  by (auto simp: remote_entry_changes_def myDeletedFiles_def Let_def
      split: option.splits abstract_file.splits property_value.splits)

lemma remote_entry_changes_path:
  "remote_entry_changes BigInt v d e = Inr cs \<Longrightarrow> c \<in> set cs \<Longrightarrow> cpath c = rpath e"
  by (auto simp: remote_entry_changes_def Let_def
      split: option.splits if_splits abstract_file.splits property_value.splits)

lemma remote_loop_answers:
  "\<forall>e \<in> set rfs. \<exists>cs. remote_entry_changes BigInt v d e = Inr cs \<Longrightarrow>
   remote_loop BigInt v d rfs = Inr (concat (map (\<lambda>e. projr (remote_entry_changes BigInt v d e)) rfs))"
proof (induction rfs)
  case Nil
  then show ?case by simp
next
  case (Cons e rfs)
  from Cons.prems obtain cs where cs: "remote_entry_changes BigInt v d e = Inr cs"
    by auto
  with Cons show ?case by simp
qed

lemma local_loop_path:
  "c \<in> set (local_loop v rfs) \<Longrightarrow> cpath c \<notin> rpath ` set rfs"
  by (auto simp: local_loop_def)

lemma plan_of_handleSyncResponse:
  "node_ready st \<Longrightarrow> sessionKeys st peerId = Some k \<Longrightarrow>
   compute_changes BigInt st rfs = Inr cs \<Longrightarrow>
   plan_of (handleSyncResponse BigInt st peerId rfs) = Some cs"
  by (auto simp: handleSyncResponse_def split: prod.splits)

lemma compute_changes_answers:
  "\<forall>e \<in> set rfs. \<exists>cs. remote_entry_changes BigInt (vault st) (myDeletedFiles (journal st)) e = Inr cs \<Longrightarrow>
   compute_changes BigInt st rfs =
     Inr (concat (map (\<lambda>e. projr (remote_entry_changes BigInt (vault st) (myDeletedFiles (journal st)) e)) rfs)
          @ local_loop (vault st) rfs)"
  by (simp add: compute_changes_def remote_loop_answers)

lemma plan_entry_subset:
  assumes "\<forall>e \<in> set rfs. \<exists>cs. remote_entry_changes BigInt (vault st) (myDeletedFiles (journal st)) e = Inr cs"
    and "r \<in> set rfs"
    and "remote_entry_changes BigInt (vault st) (myDeletedFiles (journal st)) r = Inr cs"
    and "compute_changes BigInt st rfs = Inr changes"
  shows "set cs \<subseteq> set changes"
  using assms by (force simp: compute_changes_answers)

lemma plan_path_origin:
  assumes ans: "\<forall>e \<in> set rfs. \<exists>cs. remote_entry_changes BigInt (vault st) (myDeletedFiles (journal st)) e = Inr cs"
    and "compute_changes BigInt st rfs = Inr changes"
    and "c \<in> set changes" and "cpath c = rpath r" and "r \<in> set rfs"
  shows "\<exists>e cs. e \<in> set rfs \<and> rpath e = rpath r \<and>
           remote_entry_changes BigInt (vault st) (myDeletedFiles (journal st)) e = Inr cs \<and> c \<in> set cs"
proof -
  from assms(1,2) have ch: "changes =
      concat (map (\<lambda>e. projr (remote_entry_changes BigInt (vault st) (myDeletedFiles (journal st)) e)) rfs)
      @ local_loop (vault st) rfs"
    by (simp add: compute_changes_answers)
  from assms(4,5) have "c \<notin> set (local_loop (vault st) rfs)"
    using local_loop_path [of c "vault st" rfs] by auto
  with ch assms(3) obtain e where e: "e \<in> set rfs"
      "c \<in> set (projr (remote_entry_changes BigInt (vault st) (myDeletedFiles (journal st)) e))"
    by auto
  from e(1) ans obtain cs where
      cs: "remote_entry_changes BigInt (vault st) (myDeletedFiles (journal st)) e = Inr cs"
    by blast
  with e(2) have "c \<in> set cs" by simp
  moreover from this cs have "cpath c = rpath e" by (rule remote_entry_changes_path [rotated])
  ultimately show ?thesis using e(1) cs assms(4) by auto
qed

lemma safe_list_answers:
  "\<forall>e \<in> set rfs. BigInt (rmtime e) \<noteq> None \<and> rpath e \<notin> set Object_prototype_members \<Longrightarrow>
   \<forall>e \<in> set rfs. \<exists>cs. remote_entry_changes BigInt v (myDeletedFiles j) e = Inr cs"
  using safe_entry_answers by blast

text \<open>
  C1. A remote tombstone with a deletion time after the modification time of the local
  file calls for the delete of the path. The handler loses that delete when the list also
  holds a live entry, with nothing local at its path, whose path is the name of a member
  of \<open>Object.prototype\<close>: the lookup in \<open>myDeletedFiles\<close> yields the inherited member,
  \<open>BigInt\<close> of it throws, and the handler ends with no plan at all. Here the local file
  \<open>note.md\<close> has time 100 and the tombstone time 300; with \<open>constructor\<close> as the second
  path nothing is planned, with \<open>construct\<close> the delete is planned and carried out.
\<close>

theorem tombstone_lost_to_inherited_member:
  "handleSyncResponse BigInt_decimal device_A ''b1''
     [\<lparr>rpath = ''note.md'', rmtime = ''300'', isDeleted = True\<rparr>,
      \<lparr>rpath = ''constructor'', rmtime = ''100'', isDeleted = False\<rparr>] = Threw SyntaxError \<and>
   handleSyncResponse BigInt_decimal device_A ''b1''
     [\<lparr>rpath = ''note.md'', rmtime = ''300'', isDeleted = True\<rparr>,
      \<lparr>rpath = ''construct'', rmtime = ''100'', isDeleted = False\<rparr>]
     = Executed
         [\<lparr>cpath = ''note.md'', ctype = Delete, reason = ''Remote deletion is newer''\<rparr>,
          \<lparr>cpath = ''construct'', ctype = Pull, reason = ''New remote file''\<rparr>]
         (device_A\<lparr>vault := [], remoteUpdateInProgress := {''note.md''}\<rparr>)
         [VaultDelete ''note.md'', MarkFileDeleted ''note.md'',
          Send ''b1'' (FILE_REQUEST ''construct'')]"
  by (simp add: handleSyncResponse_def device_A_def compute_changes_def remote_entry_changes_def
      getAbstractFileByPath_def local_loop_def getFiles_def BigInt_decimal_def digit_of_def
      myDeletedFiles_def Object_prototype_members_def executeChange_def vault_delete_def)

text \<open>
  Where no path of the list is such a name, the tombstone rule holds: the plan has the
  delete when the local file is older than the deletion, and nothing for the path when it
  is newer and the list names the path once.
\<close>

lemma tombstone_plan_when_no_entry_throws:
  assumes ready: "node_ready st" and key: "sessionKeys st peerId = Some k"
    and safe: "\<forall>e \<in> set remoteFiles. BigInt (rmtime e) \<noteq> None \<and>
                 rpath e \<notin> set Object_prototype_members"
    and r: "r \<in> set remoteFiles" "isDeleted r" "BigInt (rmtime r) = Some t2"
    and loc: "getAbstractFileByPath (vault st) (rpath r) = Some (TFile t1 content)"
  shows "\<exists>changes. plan_of (handleSyncResponse BigInt st peerId remoteFiles) = Some changes \<and>
           (t1 < t2 \<longrightarrow>
              \<lparr>cpath = rpath r, ctype = Delete, reason = ''Remote deletion is newer''\<rparr> \<in> set changes) \<and>
           (t2 < t1 \<and> (\<forall>e \<in> set remoteFiles. rpath e = rpath r \<longrightarrow> e = r) \<longrightarrow>
              (\<forall>c \<in> set changes. cpath c \<noteq> rpath r))"
proof -
  note ans = safe_list_answers [OF safe, of "vault st" "journal st"]
  from ans obtain changes where ch: "compute_changes BigInt st remoteFiles = Inr changes"
    by (simp add: compute_changes_answers)
  have plan: "plan_of (handleSyncResponse BigInt st peerId remoteFiles) = Some changes"
    using ready key ch by (rule plan_of_handleSyncResponse)
  let ?own = "remote_entry_changes BigInt (vault st) (myDeletedFiles (journal st)) r"
  have newer: "\<lparr>cpath = rpath r, ctype = Delete, reason = ''Remote deletion is newer''\<rparr> \<in> set changes"
    if "t1 < t2"
  proof -
    have "?own = Inr [\<lparr>cpath = rpath r, ctype = Delete, reason = ''Remote deletion is newer''\<rparr>]"
      using r loc that by (simp add: remote_entry_changes_def)
    from plan_entry_subset [OF ans r(1) this ch] show ?thesis by simp
  qed
  have older: "cpath c \<noteq> rpath r"
    if "t2 < t1" and only: "\<forall>e \<in> set remoteFiles. rpath e = rpath r \<longrightarrow> e = r"
      and c: "c \<in> set changes" for c
  proof
    assume "cpath c = rpath r"
    from plan_path_origin [OF ans ch c this r(1)] only
    obtain cs where "?own = Inr cs" "c \<in> set cs" by blast
    moreover have "?own = Inr []"
      using r loc that(1) by (simp add: remote_entry_changes_def)
    ultimately show False by simp
  qed
  from plan newer older show ?thesis by blast
qed

text \<open>Carrying out a plan: a push for a local deletion tells the peer to delete.\<close>

lemma executeSync_Cons_effects:
  "snd (executeSync peerId sessionKey st (a # rest))
     = snd (executeChange peerId sessionKey st a)
       @ snd (executeSync peerId sessionKey (fst (executeChange peerId sessionKey st a)) rest)"
  by (simp split: prod.splits)

lemma executeSync_push_delete:
  "c \<in> set changes \<Longrightarrow> ctype c = Push \<Longrightarrow> reason c = ''Local deletion is newer'' \<Longrightarrow>
   Send peerId (FILE_DELETE (cpath c)) \<in> set (snd (executeSync peerId sessionKey st changes))"
proof (induction changes arbitrary: st)
  case Nil
  then show ?case by simp
next
  case (Cons a changes)
  show ?case
  proof (cases "c = a")
    case True
    with Cons.prems have "snd (executeChange peerId sessionKey st a) = [Send peerId (FILE_DELETE (cpath c))]"
      by (simp add: executeChange_def)
    then show ?thesis by (simp only: executeSync_Cons_effects) simp
  next
    case False
    with Cons.prems have "c \<in> set changes" by simp
    from Cons.IH [OF this Cons.prems(2,3)] show ?thesis
      by (simp only: executeSync_Cons_effects) simp
  qed
qed

text \<open>
  C3, as amended. A remote entry that is live, with a modification time \<open>t2\<close> that is not
  negative, in a list whose times convert and whose paths are not names of members of
  \<open>Object.prototype\<close>; the journal's time for the path, if it has one, below \<open>2^53\<close>.
  When the vault has nothing at the path, neither file nor folder, the plan holds the pull
  of the path, unless the local journal holds a tombstone for the path with a time after
  \<open>t2\<close>: then the plan holds, instead of a pull, a push whose execution sends
  \<open>FILE_DELETE\<close> for the path to the peer. When the vault has a folder at the path, the
  plan holds nothing for the path.
\<close>

theorem remote_live_with_nothing_local:
  assumes ready: "node_ready st" and key: "sessionKeys st peerId = Some k"
    and safe: "\<forall>e \<in> set remoteFiles. BigInt (rmtime e) \<noteq> None \<and>
                 rpath e \<notin> set Object_prototype_members"
    and r: "r \<in> set remoteFiles" "\<not> isDeleted r" "BigInt (rmtime r) = Some t2" "0 \<le> t2"
    and exact: "\<forall>files md. journal st = Some files \<and> files (rpath r) = Some md
                  \<longrightarrow> mtime md < 2 ^ 53"
  shows "\<exists>changes. plan_of (handleSyncResponse BigInt st peerId remoteFiles) = Some changes \<and>
           (getAbstractFileByPath (vault st) (rpath r) = None \<longrightarrow>
              (if \<exists>files md. journal st = Some files \<and> files (rpath r) = Some md \<and>
                    is_deleted md \<and> t2 < int (mtime md)
               then \<lparr>cpath = rpath r, ctype = Push, reason = ''Local deletion is newer''\<rparr> \<in> set changes \<and>
                    (\<forall>st'. Send peerId (FILE_DELETE (rpath r))
                             \<in> set (snd (executeSync peerId k st' changes))) \<and>
                    ((\<forall>e \<in> set remoteFiles. rpath e = rpath r \<longrightarrow> e = r) \<longrightarrow>
                       (\<forall>c \<in> set changes. cpath c = rpath r \<longrightarrow> ctype c \<noteq> Pull))
               else \<lparr>cpath = rpath r, ctype = Pull, reason = ''New remote file''\<rparr> \<in> set changes)) \<and>
           (getAbstractFileByPath (vault st) (rpath r) = Some TFolder \<and>
            (\<forall>e \<in> set remoteFiles. rpath e = rpath r \<longrightarrow> e = r) \<longrightarrow>
              (\<forall>c \<in> set changes. cpath c \<noteq> rpath r))"
proof -
  note ans = safe_list_answers [OF safe, of "vault st" "journal st"]
  from ans obtain changes where ch: "compute_changes BigInt st remoteFiles = Inr changes"
    by (simp add: compute_changes_answers)
  have plan: "plan_of (handleSyncResponse BigInt st peerId remoteFiles) = Some changes"
    using ready key ch by (rule plan_of_handleSyncResponse)
  let ?own = "remote_entry_changes BigInt (vault st) (myDeletedFiles (journal st)) r"
  let ?tomb = "\<exists>files md. journal st = Some files \<and> files (rpath r) = Some md \<and>
                 is_deleted md \<and> t2 < int (mtime md)"
  let ?push = "\<lparr>cpath = rpath r, ctype = Push, reason = ''Local deletion is newer''\<rparr>"
  let ?pull = "\<lparr>cpath = rpath r, ctype = Pull, reason = ''New remote file''\<rparr>"
  from safe r(1) have name: "rpath r \<notin> set Object_prototype_members" by blast
  then have proto: "rpath r \<noteq> ''__proto__''" by (auto simp: Object_prototype_members_def)
  have look: "myDeletedFiles (journal st) (rpath r) =
      (case journal st of
         None \<Rightarrow> Missing
       | Some files \<Rightarrow>
           (case files (rpath r) of
              None \<Rightarrow> Missing
            | Some md \<Rightarrow> if is_deleted md then Stored (mtime md) else Missing))"
    using name proto exact
    by (auto simp: myDeletedFiles_def JSON_number_safe split: option.splits)
  have folder: "cpath c \<noteq> rpath r"
    if loc: "getAbstractFileByPath (vault st) (rpath r) = Some TFolder"
      and only: "\<forall>e \<in> set remoteFiles. rpath e = rpath r \<longrightarrow> e = r"
      and c: "c \<in> set changes" for c
  proof
    assume "cpath c = rpath r"
    from plan_path_origin [OF ans ch c this r(1)] only
    obtain cs where "?own = Inr cs" "c \<in> set cs" by blast
    moreover have "?own = Inr []"
      using r loc by (simp add: remote_entry_changes_def)
    ultimately show False by simp
  qed
  have vacant: "if ?tomb
      then ?push \<in> set changes \<and>
           (\<forall>st'. Send peerId (FILE_DELETE (rpath r)) \<in> set (snd (executeSync peerId k st' changes))) \<and>
           ((\<forall>e \<in> set remoteFiles. rpath e = rpath r \<longrightarrow> e = r) \<longrightarrow>
              (\<forall>c \<in> set changes. cpath c = rpath r \<longrightarrow> ctype c \<noteq> Pull))
      else ?pull \<in> set changes"
    if loc: "getAbstractFileByPath (vault st) (rpath r) = None"
  proof (cases ?tomb)
    case True
    then have own: "?own = Inr [?push]"
      using r loc by (auto simp: remote_entry_changes_def look)
    from plan_entry_subset [OF ans r(1) own ch] have mem: "?push \<in> set changes" by simp
    have sends: "Send peerId (FILE_DELETE (rpath r)) \<in> set (snd (executeSync peerId k st' changes))" for st'
      using executeSync_push_delete [OF mem, of peerId k st'] by simp
    have nopull: "ctype c \<noteq> Pull"
      if only: "\<forall>e \<in> set remoteFiles. rpath e = rpath r \<longrightarrow> e = r"
        and c: "c \<in> set changes" "cpath c = rpath r" for c
    proof -
      from plan_path_origin [OF ans ch c r(1)] only
      obtain cs where "?own = Inr cs" "c \<in> set cs" by blast
      with own show ?thesis by auto
    qed
    from True mem sends nopull show ?thesis by auto
  next
    case False
    then have own: "?own = Inr [?pull]"
      using r loc by (auto simp: remote_entry_changes_def look split: option.splits)
    from plan_entry_subset [OF ans r(1) own ch] have "?pull \<in> set changes" by simp
    with False show ?thesis by auto
  qed
  show ?thesis
  proof (rule exI [of _ changes], intro conjI impI)
    show "plan_of (handleSyncResponse BigInt st peerId remoteFiles) = Some changes"
      by (rule plan)
  next
    assume none: "getAbstractFileByPath (vault st) (rpath r) = None"
    show "if ?tomb
      then ?push \<in> set changes \<and>
           (\<forall>st'. Send peerId (FILE_DELETE (rpath r)) \<in> set (snd (executeSync peerId k st' changes))) \<and>
           ((\<forall>e \<in> set remoteFiles. rpath e = rpath r \<longrightarrow> e = r) \<longrightarrow>
              (\<forall>c \<in> set changes. cpath c = rpath r \<longrightarrow> ctype c \<noteq> Pull))
      else ?pull \<in> set changes"
      by (rule vacant [OF none])
  next
    assume "getAbstractFileByPath (vault st) (rpath r) = Some TFolder \<and>
            (\<forall>e \<in> set remoteFiles. rpath e = rpath r \<longrightarrow> e = r)"
    then show "\<forall>c \<in> set changes. cpath c \<noteq> rpath r" using folder by blast
  qed
qed

theorem remote_live_with_nothing_local_witness:
  "(\<exists>changes. plan_of (handleSyncResponse BigInt_decimal
         (device_A\<lparr>journal := Some [''gone.md'' \<mapsto> \<lparr>mtime = 5000, is_deleted = True\<rparr>]\<rparr>) ''b1''
         [\<lparr>rpath = ''gone.md'', rmtime = ''3000'', isDeleted = False\<rparr>,
          \<lparr>rpath = ''note.md'', rmtime = ''100'', isDeleted = False\<rparr>]) = Some changes \<and>
      \<lparr>cpath = ''gone.md'', ctype = Push, reason = ''Local deletion is newer''\<rparr> \<in> set changes \<and>
      Send ''b1'' (FILE_DELETE ''gone.md'') \<in> set (snd (executeSync ''b1'' ''key'' device_A changes))) \<and>
   (\<exists>changes. plan_of (handleSyncResponse BigInt_decimal
         (device_A\<lparr>journal := Some [''gone.md'' \<mapsto> \<lparr>mtime = 5000, is_deleted = True\<rparr>]\<rparr>) ''b1''
         [\<lparr>rpath = ''gone.md'', rmtime = ''9000'', isDeleted = False\<rparr>,
          \<lparr>rpath = ''note.md'', rmtime = ''100'', isDeleted = False\<rparr>]) = Some changes \<and>
      \<lparr>cpath = ''gone.md'', ctype = Pull, reason = ''New remote file''\<rparr> \<in> set changes)"
proof -
  let ?st = "device_A\<lparr>journal := Some [''gone.md'' \<mapsto> \<lparr>mtime = 5000, is_deleted = True\<rparr>]\<rparr>"
  let ?note = "\<lparr>rpath = ''note.md'', rmtime = ''100'', isDeleted = False\<rparr>"
  let ?r1 = "\<lparr>rpath = ''gone.md'', rmtime = ''3000'', isDeleted = False\<rparr>"
  let ?r2 = "\<lparr>rpath = ''gone.md'', rmtime = ''9000'', isDeleted = False\<rparr>"
  have bi: "BigInt_decimal ''3000'' = Some 3000" "BigInt_decimal ''9000'' = Some 9000"
      "BigInt_decimal ''100'' = Some 100"
    by (simp_all add: BigInt_decimal_def digit_of_def)
  have st: "node_ready ?st" "sessionKeys ?st ''b1'' = Some ''key''"
    by (simp_all add: device_A_def)
  have loc: "getAbstractFileByPath (vault ?st) (rpath ?r1) = None"
      "getAbstractFileByPath (vault ?st) (rpath ?r2) = None"
    by (simp_all add: device_A_def getAbstractFileByPath_def)
  have p1: "\<forall>e \<in> set [?r1, ?note]. BigInt_decimal (rmtime e) \<noteq> None \<and>
              rpath e \<notin> set Object_prototype_members"
    and p2: "\<forall>e \<in> set [?r2, ?note]. BigInt_decimal (rmtime e) \<noteq> None \<and>
              rpath e \<notin> set Object_prototype_members"
    using bi by (simp_all add: Object_prototype_members_def)
  have x1: "\<forall>files md. journal ?st = Some files \<and> files (rpath ?r1) = Some md \<longrightarrow> mtime md < 2 ^ 53"
    and x2: "\<forall>files md. journal ?st = Some files \<and> files (rpath ?r2) = Some md \<longrightarrow> mtime md < 2 ^ 53"
    by auto
  have older: "\<exists>files md. journal ?st = Some files \<and> files (rpath ?r1) = Some md \<and>
                 is_deleted md \<and> 3000 < int (mtime md)"
    by simp
  have newer: "\<not> (\<exists>files md. journal ?st = Some files \<and> files (rpath ?r2) = Some md \<and>
                 is_deleted md \<and> 9000 < int (mtime md))"
    by simp
  have a: "\<exists>changes. plan_of (handleSyncResponse BigInt_decimal ?st ''b1'' [?r1, ?note]) = Some changes \<and>
      \<lparr>cpath = ''gone.md'', ctype = Push, reason = ''Local deletion is newer''\<rparr> \<in> set changes \<and>
      Send ''b1'' (FILE_DELETE ''gone.md'') \<in> set (snd (executeSync ''b1'' ''key'' device_A changes))"
    using remote_live_with_nothing_local [of ?st "''b1''" "''key''" "[?r1, ?note]" BigInt_decimal
        ?r1 3000, OF st p1 _ _ _ _ x1, unfolded if_P [OF older]] bi loc(1)
    by simp blast
  have b: "\<exists>changes. plan_of (handleSyncResponse BigInt_decimal ?st ''b1'' [?r2, ?note]) = Some changes \<and>
      \<lparr>cpath = ''gone.md'', ctype = Pull, reason = ''New remote file''\<rparr> \<in> set changes"
    using remote_live_with_nothing_local [of ?st "''b1''" "''key''" "[?r2, ?note]" BigInt_decimal
        ?r2 9000, OF st p2 _ _ _ _ x2, unfolded if_not_P [OF newer]] bi loc(2)
    by simp
  from a b show ?thesis by blast
qed

text \<open>
  A folder stands at the path of a live remote entry: there is no local file, and the
  handler neither pulls nor pushes; it finds everything up to date.
\<close>

theorem folder_at_live_remote_path_counterexample:
  "handleSyncResponse BigInt_decimal (device_A\<lparr>vault := [(''notes'', TFolder)]\<rparr>) ''b1''
     [\<lparr>rpath = ''notes'', rmtime = ''100'', isDeleted = False\<rparr>] = UpToDate"
  by (simp add: handleSyncResponse_def device_A_def compute_changes_def remote_entry_changes_def
      getAbstractFileByPath_def local_loop_def getFiles_def BigInt_decimal_def digit_of_def)

text \<open>
  C4, as amended. The peer's snapshot holds one entry, live with modification time \<open>t2\<close>,
  and the device has a file at the same path with modification time \<open>t1\<close>: the plan holds
  the pull of the path when \<open>t2\<close> is more than 2000 milliseconds after \<open>t1\<close>, the push
  when it is more than 2000 before, and no change for the path when the two are within
  2000 of each other. In the scenario of 100 against 300 the difference is 200, and the
  handler is up to date.
\<close>

theorem remote_live_against_local_file:
  assumes ready: "node_ready st" and key: "sessionKeys st peerId = Some k"
    and r: "\<not> isDeleted r" "BigInt (rmtime r) = Some t2"
    and loc: "getAbstractFileByPath (vault st) (rpath r) = Some (TFile t1 content)"
  shows "\<exists>changes. plan_of (handleSyncResponse BigInt st peerId [r]) = Some changes \<and>
           (2000 < t2 - t1 \<longrightarrow>
              \<lparr>cpath = rpath r, ctype = Pull, reason = ''Remote is newer''\<rparr> \<in> set changes) \<and>
           (t2 - t1 < - 2000 \<longrightarrow>
              \<lparr>cpath = rpath r, ctype = Push, reason = ''Local is newer''\<rparr> \<in> set changes) \<and>
           (\<bar>t2 - t1\<bar> \<le> 2000 \<longrightarrow> (\<forall>c \<in> set changes. cpath c \<noteq> rpath r))"
proof -
  let ?own = "remote_entry_changes BigInt (vault st) (myDeletedFiles (journal st)) r"
  let ?result = "if 2000 < t2 - t1
        then [\<lparr>cpath = rpath r, ctype = Pull, reason = ''Remote is newer''\<rparr>]
        else if t2 - t1 < - 2000
        then [\<lparr>cpath = rpath r, ctype = Push, reason = ''Local is newer''\<rparr>]
        else []"
  have own: "?own = Inr ?result"
    using r loc by (simp add: remote_entry_changes_def Let_def)
  then have ch: "compute_changes BigInt st [r] = Inr (?result @ local_loop (vault st) [r])"
    by (simp add: compute_changes_def)
  have plan: "plan_of (handleSyncResponse BigInt st peerId [r])
                = Some (?result @ local_loop (vault st) [r])"
    using ready key ch by (rule plan_of_handleSyncResponse)
  have loc_paths: "cpath c \<noteq> rpath r" if "c \<in> set (local_loop (vault st) [r])" for c
    using local_loop_path [OF that] by simp
  from plan loc_paths show ?thesis by auto
qed

theorem remote_live_against_local_file_witness:
  "(\<exists>changes. plan_of (handleSyncResponse BigInt_decimal device_A ''b1''
        [\<lparr>rpath = ''note.md'', rmtime = ''300'', isDeleted = False\<rparr>]) = Some changes \<and>
      list_all (\<lambda>c. cpath c \<noteq> ''note.md'') changes) \<and>
   (\<exists>changes. plan_of (handleSyncResponse BigInt_decimal device_A ''b1''
        [\<lparr>rpath = ''note.md'', rmtime = ''2101'', isDeleted = False\<rparr>]) = Some changes \<and>
      \<lparr>cpath = ''note.md'', ctype = Pull, reason = ''Remote is newer''\<rparr> \<in> set changes)"
proof -
  have bi: "BigInt_decimal ''300'' = Some 300" "BigInt_decimal ''2101'' = Some 2101"
    by (simp_all add: BigInt_decimal_def digit_of_def)
  have loc: "getAbstractFileByPath (vault device_A) ''note.md'' = Some (TFile 100 [72, 49])"
    by (simp add: getAbstractFileByPath_def device_A_def)
  have st: "node_ready device_A" "sessionKeys device_A ''b1'' = Some ''key''"
    by (simp_all add: device_A_def)
  show ?thesis
    using remote_live_against_local_file [of device_A "''b1''" "''key''"
        "\<lparr>rpath = ''note.md'', rmtime = ''300'', isDeleted = False\<rparr>" BigInt_decimal 300 100 "[72, 49]"]
      remote_live_against_local_file [of device_A "''b1''" "''key''"
        "\<lparr>rpath = ''note.md'', rmtime = ''2101'', isDeleted = False\<rparr>" BigInt_decimal 2101 100 "[72, 49]"]
      bi loc st
    by (simp add: list_all_iff)
qed

text \<open>
  The scenario as the spec has it, local 100 against remote 300: no pull, the handler
  finds everything up to date.
\<close>

theorem scenario_mtime_100_against_300_counterexample:
  "handleSyncResponse BigInt_decimal device_A ''b1''
     [\<lparr>rpath = ''note.md'', rmtime = ''300'', isDeleted = False\<rparr>] = UpToDate"
  by (simp add: handleSyncResponse_def device_A_def compute_changes_def remote_entry_changes_def
      getAbstractFileByPath_def local_loop_def getFiles_def BigInt_decimal_def digit_of_def)

lemma remote_loop_identical:
  assumes "\<forall>e \<in> set snapshot. \<exists>t. BigInt (rmtime e) = Some t \<and>
               (if isDeleted e then getAbstractFileByPath v (rpath e) = None
                else \<exists>content. getAbstractFileByPath v (rpath e) = Some (TFile t content))"
  shows "remote_loop BigInt v d snapshot = Inr []"
  using assms
proof (induction snapshot)
  case Nil
  then show ?case by simp
next
  case (Cons e snapshot)
  from Cons.prems have "remote_entry_changes BigInt v d e = Inr []"
    by (auto simp: remote_entry_changes_def split: if_splits)
  with Cons show ?case by simp
qed

text \<open>
  C5, as amended. A snapshot against the device it describes: every live entry has a local
  file at its path with the same modification time, every tombstone's path has nothing in
  the vault, neither file nor folder, and every local file is listed. The handler finds no
  change and reports up to date.
\<close>

theorem reconcile_identical_snapshot:
  assumes ready: "node_ready st" and key: "sessionKeys st peerId = Some k"
    and same: "\<forall>e \<in> set snapshot. \<exists>t. BigInt (rmtime e) = Some t \<and>
               (if isDeleted e then getAbstractFileByPath (vault st) (rpath e) = None
                else \<exists>content. getAbstractFileByPath (vault st) (rpath e) = Some (TFile t content))"
    and listed: "\<forall>(p, m) \<in> set (getFiles (vault st)). p \<in> rpath ` set snapshot"
  shows "handleSyncResponse BigInt st peerId snapshot = UpToDate"
proof -
  have "remote_loop BigInt (vault st) (myDeletedFiles (journal st)) snapshot = Inr []"
    using same by (rule remote_loop_identical)
  moreover have "local_loop (vault st) snapshot = []"
    using listed by (auto simp: local_loop_def filter_empty_conv)
  ultimately have "compute_changes BigInt st snapshot = Inr []"
    by (simp add: compute_changes_def)
  with ready key show ?thesis by (simp add: handleSyncResponse_def)
qed

theorem reconcile_identical_snapshot_witness:
  "handleSyncResponse BigInt_decimal
     (device_A\<lparr>journal := Some [''old.md'' \<mapsto> \<lparr>mtime = 50, is_deleted = True\<rparr>]\<rparr>) ''b1''
     [\<lparr>rpath = ''note.md'', rmtime = ''100'', isDeleted = False\<rparr>,
      \<lparr>rpath = ''old.md'', rmtime = ''50'', isDeleted = True\<rparr>] = UpToDate"
proof -
  let ?st = "device_A\<lparr>journal := Some [''old.md'' \<mapsto> \<lparr>mtime = 50, is_deleted = True\<rparr>]\<rparr>"
  have bi: "BigInt_decimal ''100'' = Some 100" "BigInt_decimal ''50'' = Some 50"
    by (simp_all add: BigInt_decimal_def digit_of_def)
  have st: "node_ready ?st" "sessionKeys ?st ''b1'' = Some ''key''"
      "getAbstractFileByPath (vault ?st) ''note.md'' = Some (TFile 100 [72, 49])"
      "getAbstractFileByPath (vault ?st) ''old.md'' = None"
      "getFiles (vault ?st) = [(''note.md'', 100)]"
    by (simp_all add: device_A_def getAbstractFileByPath_def getFiles_def)
  show ?thesis
    using reconcile_identical_snapshot [of ?st "''b1''" "''key''"
        "[\<lparr>rpath = ''note.md'', rmtime = ''100'', isDeleted = False\<rparr>,
          \<lparr>rpath = ''old.md'', rmtime = ''50'', isDeleted = True\<rparr>]" BigInt_decimal]
      bi st
    by simp
qed

text \<open>
  A folder stands where a file was deleted: the snapshot of the device lists its one file
  and the tombstone, as the device itself has them, and against this snapshot the handler
  plans the delete of the folder's path.
\<close>

theorem folder_at_tombstoned_path_counterexample:
  "plan_of (handleSyncResponse BigInt_decimal
     (device_A\<lparr>vault := [(''note.md'', TFile 100 [72, 49]), (''old'', TFolder)],
               journal := Some [''old'' \<mapsto> \<lparr>mtime = 50, is_deleted = True\<rparr>]\<rparr>) ''b1''
     [\<lparr>rpath = ''note.md'', rmtime = ''100'', isDeleted = False\<rparr>,
      \<lparr>rpath = ''old'', rmtime = ''50'', isDeleted = True\<rparr>])
   = Some [\<lparr>cpath = ''old'', ctype = Delete, reason = ''Remote deletion is newer''\<rparr>]"
  by (simp add: handleSyncResponse_def device_A_def compute_changes_def remote_entry_changes_def
      getAbstractFileByPath_def local_loop_def getFiles_def BigInt_decimal_def digit_of_def
      executeChange_def vault_delete_def)

section \<open>Properties of the session handshake\<close>

lemma answerSessionOffer_pending:
  "pendingSessionOffers (fst (answerSessionOffer h st peerId offer)) = pendingSessionOffers st"
  by (auto simp: answerSessionOffer_def split: prod.splits sum.splits option.splits)

text \<open>
  C2. A device with an outstanding offer for a peer receives a \<open>SESSION_OFFER\<close> from
  that peer, the two device ids being different. One of the two ids is the smaller. When
  the device's own id is the smaller, the handler returns with the state as it was, its
  pending offer included, and sends nothing. When its own id is the larger, the handler
  removes the pending offer and goes on as for any incoming offer: the security service
  handles the offer, and the answer it gives is sent to the peer.
\<close>

theorem simultaneous_offer_tie_break:
  assumes pend: "pendingSessionOffers st peerId = Some keyExchange"
    and distinct_ids: "myDeviceId st \<noteq> deviceId offer"
  shows "(myDeviceId st < deviceId offer \<or> deviceId offer < myDeviceId st) \<and>
         (myDeviceId st < deviceId offer \<longrightarrow>
            handleSessionOfferMessage h st peerId offer = (st, [])) \<and>
         (deviceId offer < myDeviceId st \<longrightarrow>
            handleSessionOfferMessage h st peerId offer
              = answerSessionOffer h
                  (st\<lparr>pendingSessionOffers := (pendingSessionOffers st)(peerId := None)\<rparr>) peerId offer \<and>
            pendingSessionOffers (fst (handleSessionOfferMessage h st peerId offer)) peerId = None \<and>
            (\<forall>answer keys. h (sessionKeys st) peerId offer = (Inr (Some answer), keys) \<longrightarrow>
               snd (handleSessionOfferMessage h st peerId offer) = [Send peerId (SESSION_ANSWER answer)]))"
proof (intro conjI impI allI)
  show "myDeviceId st < deviceId offer \<or> deviceId offer < myDeviceId st"
    using distinct_ids by (rule linorder_neqE) simp_all
next
  assume "myDeviceId st < deviceId offer"
  with pend show "handleSessionOfferMessage h st peerId offer = (st, [])"
    by (simp add: handleSessionOfferMessage_def)
next
  assume larger: "deviceId offer < myDeviceId st"
  then have no: "\<not> myDeviceId st < deviceId offer" by (simp add: not_less less_imp_le)
  with pend show follow: "handleSessionOfferMessage h st peerId offer
              = answerSessionOffer h
                  (st\<lparr>pendingSessionOffers := (pendingSessionOffers st)(peerId := None)\<rparr>) peerId offer"
    by (simp add: handleSessionOfferMessage_def)
  show "pendingSessionOffers (fst (handleSessionOfferMessage h st peerId offer)) peerId = None"
    by (simp add: follow answerSessionOffer_pending)
  fix answer keys
  assume "h (sessionKeys st) peerId offer = (Inr (Some answer), keys)"
  then show "snd (handleSessionOfferMessage h st peerId offer) = [Send peerId (SESSION_ANSWER answer)]"
    by (simp add: follow answerSessionOffer_def)
qed

theorem simultaneous_offer_tie_break_witness:
  "handleSessionOfferMessage example_handleSessionOffer
      (device_A\<lparr>pendingSessionOffers := [''b1'' \<mapsto> ''kxA'']\<rparr>) ''b1''
      \<lparr>deviceId = ''dB'', ephemeralPublicKey = ''eB'', offerSignature = ''signed:eB''\<rparr>
     = (device_A\<lparr>pendingSessionOffers := [''b1'' \<mapsto> ''kxA'']\<rparr>, []) \<and>
   pendingSessionOffers (fst (handleSessionOfferMessage example_handleSessionOffer
      (device_A\<lparr>pendingSessionOffers := [''b1'' \<mapsto> ''kxA''], myDeviceId := ''dM''\<rparr>) ''b1''
      \<lparr>deviceId = ''dB'', ephemeralPublicKey = ''eB'', offerSignature = ''signed:eB''\<rparr>)) ''b1'' = None \<and>
   snd (handleSessionOfferMessage example_handleSessionOffer
      (device_A\<lparr>pendingSessionOffers := [''b1'' \<mapsto> ''kxA''], myDeviceId := ''dM''\<rparr>) ''b1''
      \<lparr>deviceId = ''dB'', ephemeralPublicKey = ''eB'', offerSignature = ''signed:eB''\<rparr>)
     = [Send ''b1'' (SESSION_ANSWER
          \<lparr>deviceId = ''dM'', ephemeralPublicKey = ''eM'', offerSignature = ''signed:eM''\<rparr>)]"
proof -
  let ?offer = "\<lparr>deviceId = ''dB'', ephemeralPublicKey = ''eB'', offerSignature = ''signed:eB''\<rparr>"
  let ?leader = "device_A\<lparr>pendingSessionOffers := [''b1'' \<mapsto> ''kxA'']\<rparr>"
  let ?follower = "device_A\<lparr>pendingSessionOffers := [''b1'' \<mapsto> ''kxA''], myDeviceId := ''dM''\<rparr>"
  have ids: "myDeviceId ?leader = ''dA''" "myDeviceId ?follower = ''dM''" "deviceId ?offer = ''dB''"
    by (simp_all add: device_A_def)
  have order: "''dA'' < ''dB''" "''dB'' < ''dM''"
    by (simp_all add: less_char_def)
  have pend: "pendingSessionOffers ?leader ''b1'' = Some ''kxA''"
      "pendingSessionOffers ?follower ''b1'' = Some ''kxA''"
    by simp_all
  have ans: "example_handleSessionOffer (sessionKeys ?follower) ''b1'' ?offer
        = (Inr (Some \<lparr>deviceId = ''dM'', ephemeralPublicKey = ''eM'', offerSignature = ''signed:eM''\<rparr>),
           (sessionKeys ?follower)(''b1'' \<mapsto> ''shared''))"
    by (simp add: example_handleSessionOffer_def)
  have neq: "myDeviceId ?leader \<noteq> deviceId ?offer" "myDeviceId ?follower \<noteq> deviceId ?offer"
    by (simp_all add: device_A_def)
  note leader = simultaneous_offer_tie_break [OF pend(1) neq(1), of example_handleSessionOffer]
  note follower = simultaneous_offer_tie_break [OF pend(2) neq(2), of example_handleSessionOffer]
  have l: "myDeviceId ?leader < deviceId ?offer" and f: "deviceId ?offer < myDeviceId ?follower"
    using order by (simp_all add: device_A_def)
  from leader l have 1: "handleSessionOfferMessage example_handleSessionOffer ?leader ''b1'' ?offer
      = (?leader, [])"
    by blast
  from follower f
  have 2: "pendingSessionOffers (fst (handleSessionOfferMessage example_handleSessionOffer
      ?follower ''b1'' ?offer)) ''b1'' = None"
    by blast
  from follower f ans
  have 3: "snd (handleSessionOfferMessage example_handleSessionOffer ?follower ''b1'' ?offer)
     = [Send ''b1'' (SESSION_ANSWER
          \<lparr>deviceId = ''dM'', ephemeralPublicKey = ''eM'', offerSignature = ''signed:eM''\<rparr>)]"
    by blast
  from 1 2 3 show ?thesis by blast
qed

section \<open>Properties of the inbound transfer\<close>

lemma written_append: "written (a @ b) = written a @ written b"
  by (induction a rule: written.induct) simp_all

lemma Map_set_fresh: "k \<notin> fst ` set kvs \<Longrightarrow> Map_set kvs k v = kvs @ [(k, v)]"
  by (induction kvs) auto

lemma written_reassembleAndWrite:
  "written (snd (reassembleAndWrite d st tr k))
     = (case decrypt_all d k (map snd (sort_key fst (chunks tr))) of
          None \<Rightarrow> []
        | Some parts \<Rightarrow> [(tpath tr, concat parts)])"
  by (simp add: reassembleAndWrite_def Let_def split: option.splits)

lemma reassembleAndWrite_state:
  "sessionKeys (fst (reassembleAndWrite d st tr k)) = sessionKeys st"
  "incomingChunks (fst (reassembleAndWrite d st tr k)) = incomingChunks st"
  by (simp_all add: reassembleAndWrite_def Let_def split: option.splits)

lemma handleFileChunk_buffers:
  assumes key: "sessionKeys st peerId = Some k"
    and entry: "(acc = [] \<and> incomingChunks st (peerId @ '':'' @ p) = None) \<or>
                incomingChunks st (peerId @ '':'' @ p) = Some \<lparr>chunks = acc, total = n, tpath = p\<rparr>"
    and msg: "filePath msg = p" "totalChunks msg = n" "chunkIndex msg \<notin> fst ` set acc"
    and more: "length acc + 1 \<noteq> n"
  shows "sessionKeys (fst (handleFileChunk d c st peerId msg)) peerId = Some k"
    and "incomingChunks (fst (handleFileChunk d c st peerId msg)) (peerId @ '':'' @ p)
           = Some \<lparr>chunks = acc @ [(chunkIndex msg, msg)], total = n, tpath = p\<rparr>"
    and "written (snd (handleFileChunk d c st peerId msg)) = []"
  using assms
  by (auto simp: handleFileChunk_def Let_def Map_set_fresh split: option.splits prod.splits)

lemma handleFileChunk_completes:
  assumes key: "sessionKeys st peerId = Some k"
    and entry: "(acc = [] \<and> incomingChunks st (peerId @ '':'' @ p) = None) \<or>
                incomingChunks st (peerId @ '':'' @ p) = Some \<lparr>chunks = acc, total = n, tpath = p\<rparr>"
    and msg: "filePath msg = p" "totalChunks msg = n" "chunkIndex msg \<notin> fst ` set acc"
    and last: "length acc + 1 = n"
  shows "written (snd (handleFileChunk d c st peerId msg))
           = (case decrypt_all d k (map snd (sort_key fst (acc @ [(chunkIndex msg, msg)]))) of
                None \<Rightarrow> []
              | Some parts \<Rightarrow> [(p, concat parts)])"
  using assms
  by (auto simp: handleFileChunk_def Let_def Map_set_fresh written_append split_beta
        written_reassembleAndWrite split: option.splits)


lemma deliver_append:
  "deliver d c st peerId (xs @ ys)
     = (fst (deliver d c (fst (deliver d c st peerId xs)) peerId ys),
        snd (deliver d c st peerId xs) @ snd (deliver d c (fst (deliver d c st peerId xs)) peerId ys))"
  by (induction xs arbitrary: st) (simp_all add: split_beta)

lemma deliver_buffers:
  assumes "sessionKeys st peerId = Some k"
    and "(acc = [] \<and> incomingChunks st (peerId @ '':'' @ p) = None) \<or>
         incomingChunks st (peerId @ '':'' @ p) = Some \<lparr>chunks = acc, total = n, tpath = p\<rparr>"
    and "list_all (\<lambda>m. filePath m = p \<and> totalChunks m = n) xs"
    and "distinct (map chunkIndex xs)"
    and "chunkIndex ` set xs \<inter> fst ` set acc = {}"
    and "length acc + length xs < n"
  shows "sessionKeys (fst (deliver d c st peerId xs)) peerId = Some k \<and>
         ((acc @ map (\<lambda>m. (chunkIndex m, m)) xs = [] \<and>
              incomingChunks (fst (deliver d c st peerId xs)) (peerId @ '':'' @ p) = None) \<or>
           incomingChunks (fst (deliver d c st peerId xs)) (peerId @ '':'' @ p)
             = Some \<lparr>chunks = acc @ map (\<lambda>m. (chunkIndex m, m)) xs, total = n, tpath = p\<rparr>) \<and>
         written (snd (deliver d c st peerId xs)) = []"
  using assms
proof (induction xs arbitrary: st acc)
  case Nil
  then show ?case by simp
next
  case (Cons m xs)
  let ?st1 = "fst (handleFileChunk d c st peerId m)"
  have m: "filePath m = p" "totalChunks m = n" "chunkIndex m \<notin> fst ` set acc"
      "length acc + 1 \<noteq> n"
    using Cons.prems by auto
  note step = handleFileChunk_buffers [OF Cons.prems(1,2) m, of d c]
  have "sessionKeys (fst (deliver d c ?st1 peerId xs)) peerId = Some k \<and>
         (((acc @ [(chunkIndex m, m)]) @ map (\<lambda>m. (chunkIndex m, m)) xs = [] \<and>
              incomingChunks (fst (deliver d c ?st1 peerId xs)) (peerId @ '':'' @ p) = None) \<or>
           incomingChunks (fst (deliver d c ?st1 peerId xs)) (peerId @ '':'' @ p)
             = Some \<lparr>chunks = (acc @ [(chunkIndex m, m)]) @ map (\<lambda>m. (chunkIndex m, m)) xs,
                     total = n, tpath = p\<rparr>) \<and>
         written (snd (deliver d c ?st1 peerId xs)) = []"
  proof (rule Cons.IH)
    show "sessionKeys ?st1 peerId = Some k" by (rule step(1))
    show "(acc @ [(chunkIndex m, m)] = [] \<and> incomingChunks ?st1 (peerId @ '':'' @ p) = None) \<or>
          incomingChunks ?st1 (peerId @ '':'' @ p)
            = Some \<lparr>chunks = acc @ [(chunkIndex m, m)], total = n, tpath = p\<rparr>"
      using step(2) by simp
    show "list_all (\<lambda>m. filePath m = p \<and> totalChunks m = n) xs" using Cons.prems by simp
    show "distinct (map chunkIndex xs)" using Cons.prems by simp
    show "chunkIndex ` set xs \<inter> fst ` set (acc @ [(chunkIndex m, m)]) = {}"
      using Cons.prems by auto
    show "length (acc @ [(chunkIndex m, m)]) + length xs < n" using Cons.prems by simp
  qed
  with step(3) show ?case by (simp add: split_beta written_append)
qed

lemma filter_same_key:
  "distinct (map f xs) \<Longrightarrow> x \<in> set xs \<Longrightarrow> filter (\<lambda>y. f x = f y) xs = [x]"
proof (induction xs)
  case Nil
  then show ?case by simp
next
  case (Cons a xs)
  show ?case
  proof (cases "x = a")
    case True
    with Cons.prems have "filter (\<lambda>y. f a = f y) xs = []"
      by (auto simp: filter_empty_conv)
    with True show ?thesis by simp
  next
    case False
    with Cons.prems have "x \<in> set xs" by simp
    moreover have "f a \<notin> f ` set xs" using Cons.prems by simp
    with \<open>x \<in> set xs\<close> have "f x \<noteq> f a" by (metis imageI)
    ultimately have "x \<in> set xs" "f x \<noteq> f a" by simp_all
    with Cons show ?thesis by simp
  qed
qed

lemma sort_key_arrival:
  assumes "mset arrival = mset cs" and "map f cs = [0..<length cs]"
  shows "sort_key f arrival = cs"
proof (rule properties_for_sort_key)
  show "mset cs = mset arrival" using assms(1) by simp
  show "sorted (map f cs)" using assms(2) by simp
  have dc: "distinct (map f cs)" using assms(2) by simp
  have "mset (map f arrival) = mset (map f cs)" using assms(1) by simp
  then have da: "distinct (map f arrival)" using dc by (metis distinct_count_atmost_1 set_mset_mset)
  fix x assume x: "x \<in> set cs"
  then have xa: "x \<in> set arrival" using assms(1) by (metis mset_eq_setD)
  from filter_same_key [OF dc x] filter_same_key [OF da xa]
  show "filter (\<lambda>y. f x = f y) cs = filter (\<lambda>y. f x = f y) arrival" by simp
qed

lemma deliver_complete_transfer:
  assumes ct: "complete_transfer p cs" and perm: "mset arrival = mset cs"
    and key: "sessionKeys st peerId = Some k"
    and fresh: "incomingChunks st (peerId @ '':'' @ p) = None"
  shows "written (snd (deliver d c st peerId arrival))
           = (case decrypt_all d k cs of None \<Rightarrow> [] | Some parts \<Rightarrow> [(p, concat parts)])"
proof -
  let ?n = "length cs"
  let ?g = "\<lambda>m. (chunkIndex m, m)"
  from ct have ne: "cs \<noteq> []" and idx: "map chunkIndex cs = [0..<?n]"
    and all: "list_all (\<lambda>m. filePath m = p \<and> totalChunks m = ?n) cs"
    by (simp_all add: complete_transfer_def)
  from perm have len: "length arrival = ?n" by (rule mset_eq_length)
  with ne have "arrival \<noteq> []" by auto
  then obtain xs m where arr: "arrival = xs @ [m]" by (metis rev_exhaust)
  have sets: "set arrival = set cs" using perm by (rule mset_eq_setD)
  have alla: "list_all (\<lambda>m. filePath m = p \<and> totalChunks m = ?n) arrival"
    using all sets by (simp add: list_all_iff)
  have "mset (map chunkIndex arrival) = mset (map chunkIndex cs)" using perm by simp
  moreover have "distinct (map chunkIndex cs)" using idx by simp
  ultimately have da: "distinct (map chunkIndex arrival)"
    by (metis distinct_count_atmost_1 set_mset_mset)
  let ?st1 = "fst (deliver d c st peerId xs)"
  have buf: "sessionKeys ?st1 peerId = Some k \<and>
         (([] @ map ?g xs = [] \<and> incomingChunks ?st1 (peerId @ '':'' @ p) = None) \<or>
           incomingChunks ?st1 (peerId @ '':'' @ p)
             = Some \<lparr>chunks = [] @ map ?g xs, total = ?n, tpath = p\<rparr>) \<and>
         written (snd (deliver d c st peerId xs)) = []"
  proof (rule deliver_buffers [OF key])
    show "([] = [] \<and> incomingChunks st (peerId @ '':'' @ p) = None) \<or>
          incomingChunks st (peerId @ '':'' @ p) = Some \<lparr>chunks = [], total = ?n, tpath = p\<rparr>"
      using fresh by simp
    show "list_all (\<lambda>m. filePath m = p \<and> totalChunks m = ?n) xs" using alla arr by simp
    show "distinct (map chunkIndex xs)" using da arr by simp
    show "chunkIndex ` set xs \<inter> fst ` set [] = {}" by simp
    show "length [] + length xs < ?n" using len arr by simp
  qed
  have last: "written (snd (handleFileChunk d c ?st1 peerId m))
           = (case decrypt_all d k (map snd (sort_key fst (map ?g xs @ [(chunkIndex m, m)]))) of
                None \<Rightarrow> []
              | Some parts \<Rightarrow> [(p, concat parts)])"
  proof (rule handleFileChunk_completes)
    show "sessionKeys ?st1 peerId = Some k" using buf by simp
    show "(map ?g xs = [] \<and> incomingChunks ?st1 (peerId @ '':'' @ p) = None) \<or>
          incomingChunks ?st1 (peerId @ '':'' @ p) = Some \<lparr>chunks = map ?g xs, total = ?n, tpath = p\<rparr>"
      using buf by simp
    show "filePath m = p" "totalChunks m = ?n" using alla arr by simp_all
    show "chunkIndex m \<notin> fst ` set (map ?g xs)" using da arr by (auto simp: image_iff)
    show "length (map ?g xs) + 1 = ?n" using len arr by simp
  qed
  have "sort_key fst (map ?g arrival) = map ?g cs"
  proof (rule sort_key_arrival)
    show "mset (map ?g arrival) = mset (map ?g cs)" using perm by simp
    show "map fst (map ?g cs) = [0..<length (map ?g cs)]" using idx by (simp add: comp_def)
  qed
  then have sorted: "map snd (sort_key fst (map ?g xs @ [(chunkIndex m, m)])) = cs"
    using arr by (simp add: comp_def)
  have "written (snd (deliver d c st peerId arrival))
          = written (snd (deliver d c st peerId xs)) @ written (snd (handleFileChunk d c ?st1 peerId m))"
    by (simp add: arr deliver_append written_append split_beta)
  with buf last sorted show ?thesis by simp
qed

text \<open>
  C7. The chunks of a complete transfer, handled in any order of arrival by a device that
  has a session key for the sender and nothing buffered for the file: the files written
  are the same as for the arrival in index order, namely the one file with the plaintexts
  concatenated in index order (and nothing when a chunk does not decrypt).
\<close>

theorem reassembly_independent_of_arrival_order:
  assumes "complete_transfer p cs" and "mset arrival = mset cs"
    and "sessionKeys st peerId = Some k"
    and "incomingChunks st (peerId @ '':'' @ p) = None"
  shows "written (snd (deliver d c st peerId arrival)) = written (snd (deliver d c st peerId cs)) \<and>
         written (snd (deliver d c st peerId arrival))
           = (case decrypt_all d k cs of None \<Rightarrow> [] | Some parts \<Rightarrow> [(p, concat parts)])"
  using deliver_complete_transfer [OF assms, of d c]
    deliver_complete_transfer [OF assms(1) refl assms(3,4), of d c]
  by simp

theorem reassembly_independent_of_arrival_order_witness:
  "written (snd (deliver example_decrypt (\<lambda>peerId. None) device_A ''b1''
      [example_chunk 2 [34], example_chunk 0 [73, 106], example_chunk 1 [33]]))
     = [(''a.md'', [72, 105, 32, 33])] \<and>
   written (snd (deliver example_decrypt (\<lambda>peerId. None) device_A ''b1''
      [example_chunk 0 [73, 106], example_chunk 1 [33], example_chunk 2 [34]]))
     = [(''a.md'', [72, 105, 32, 33])]"
proof -
  let ?cs = "[example_chunk 0 [73, 106], example_chunk 1 [33], example_chunk 2 [34]]"
  let ?arrival = "[example_chunk 2 [34], example_chunk 0 [73, 106], example_chunk 1 [33]]"
  have ct: "complete_transfer ''a.md'' ?cs"
    by (simp add: complete_transfer_def example_chunk_def upt_rec)
  have perm: "mset ?arrival = mset ?cs" by simp
  have st: "sessionKeys device_A ''b1'' = Some ''key''"
      "incomingChunks device_A (''b1'' @ '':'' @ ''a.md'') = None"
    by (simp_all add: device_A_def)
  have dec: "decrypt_all example_decrypt ''key'' ?cs = Some [[72, 105], [32], [33]]"
    by (simp add: example_decrypt_def example_chunk_def)
  note inst = reassembly_independent_of_arrival_order [OF ct perm st, of example_decrypt "\<lambda>peerId. None"]
  from inst have same: "written (snd (deliver example_decrypt (\<lambda>peerId. None) device_A ''b1'' ?arrival))
      = written (snd (deliver example_decrypt (\<lambda>peerId. None) device_A ''b1'' ?cs))"
    by (rule conjunct1)
  from inst have val: "written (snd (deliver example_decrypt (\<lambda>peerId. None) device_A ''b1'' ?arrival))
      = (case decrypt_all example_decrypt ''key'' ?cs of
           None \<Rightarrow> [] | Some parts \<Rightarrow> [(''a.md'', concat parts)])"
    by (rule conjunct2)
  have out: "written (snd (deliver example_decrypt (\<lambda>peerId. None) device_A ''b1'' ?arrival))
      = [(''a.md'', [72, 105, 32, 33])]"
    unfolding val dec by simp
  from same out show ?thesis by metis
qed

text \<open>
  C8, as amended. With a session key for the sender, after a \<open>FILE_CHUNK\<close> is handled
  the status of the transfer shows as progress the chunk's index plus one over the chunk's
  total, and 1 when the chunk completed the transfer. For a chunk that arrives in index
  order this is the number of chunks received, the chunk included, over the total.
\<close>

theorem chunk_progress_follows_chunk_index:
  assumes key: "sessionKeys st peerId = Some k"
  shows "\<exists>s. activeTransfers (fst (handleFileChunk d c st peerId msg)) (peerId @ '':'' @ filePath msg) = Some s \<and>
           progress s =
             (if incomingChunks (fst (handleFileChunk d c st peerId msg)) (peerId @ '':'' @ filePath msg) = None
              then Fin 1 else js_div (chunkIndex msg + 1) (totalChunks msg)) \<and>
           (arrives_in_order st peerId msg \<longrightarrow>
              progress s = js_div (length (buffered st (peerId @ '':'' @ filePath msg)) + 1) (totalChunks msg))"
proof -
  let ?key = "peerId @ '':'' @ filePath msg"
  let ?st' = "fst (handleFileChunk d c st peerId msg)"
  let ?buf = "Map_set (buffered st ?key) (chunkIndex msg) msg"
  let ?tot = "case incomingChunks st ?key of None \<Rightarrow> totalChunks msg | Some t \<Rightarrow> total t"
  show ?thesis
  proof (cases "length ?buf = ?tot")
    case True
    then have fin: "incomingChunks ?st' ?key = None"
      and ex: "\<exists>s. activeTransfers ?st' ?key = Some s \<and> progress s = Fin 1"
      using key
      by (auto simp: handleFileChunk_def Let_def split_beta buffered_def reassembleAndWrite_def
          split: option.splits)
    have "js_div (length (buffered st ?key) + 1) (totalChunks msg) = Fin 1"
      if ord: "arrives_in_order st peerId msg"
    proof -
      from ord have "chunkIndex msg \<notin> fst ` set (buffered st ?key)"
        by (metis arrives_in_order_def atLeastLessThan_iff less_irrefl set_map set_upt)
      then have "length ?buf = length (buffered st ?key) + 1" by (simp add: Map_set_fresh)
      moreover from ord have "?tot = totalChunks msg"
        by (auto simp: arrives_in_order_def Let_def split: option.splits)
      ultimately show ?thesis using True by (simp add: js_div_def)
    qed
    with fin ex show ?thesis by auto
  next
    case False
    then have fin: "incomingChunks ?st' ?key \<noteq> None"
      and ex: "\<exists>s. activeTransfers ?st' ?key = Some s \<and>
                  progress s = js_div (chunkIndex msg + 1) (totalChunks msg)"
      using key
      by (auto simp: handleFileChunk_def Let_def split_beta buffered_def split: option.splits)
    have "length (buffered st ?key) = chunkIndex msg" if "arrives_in_order st peerId msg"
      using that by (metis arrives_in_order_def length_map length_upt minus_nat.diff_0)
    with fin ex show ?thesis by auto
  qed
qed

theorem chunk_progress_follows_chunk_index_witness:
  "(\<exists>s. activeTransfers (fst (handleFileChunk example_decrypt (\<lambda>peerId. None)
       device_A ''b1'' (example_chunk 0 [73, 106]))) ''b1:a.md'' = Some s \<and> progress s = Fin (1 / 3)) \<and>
   (\<exists>s. activeTransfers (fst (handleFileChunk example_decrypt (\<lambda>peerId. None)
       device_A ''b1'' (example_chunk 2 [34]))) ''b1:a.md'' = Some s \<and> progress s = Fin 1)"
proof -
  have key: "sessionKeys device_A ''b1'' = Some ''key''" by (simp add: device_A_def)
  have ord: "arrives_in_order device_A ''b1'' (example_chunk 0 [73, 106])"
    by (simp add: arrives_in_order_def buffered_def device_A_def example_chunk_def)
  have buf: "length (buffered device_A (''b1'' @ '':'' @ filePath (example_chunk 0 [73, 106]))) = 0"
    by (simp add: buffered_def device_A_def)
  have more: "incomingChunks (fst (handleFileChunk example_decrypt (\<lambda>peerId. None)
       device_A ''b1'' (example_chunk 2 [34]))) (''b1'' @ '':'' @ filePath (example_chunk 2 [34])) \<noteq> None"
    by (simp add: handleFileChunk_def device_A_def example_chunk_def Let_def)
  have fp: "filePath (example_chunk 0 [73, 106]) = ''a.md''" "filePath (example_chunk 2 [34]) = ''a.md''"
      "js_div (0 + 1) (totalChunks (example_chunk 0 [73, 106])) = Fin (1 / 3)"
      "js_div (chunkIndex (example_chunk 2 [34]) + 1) (totalChunks (example_chunk 2 [34])) = Fin 1"
    by (simp_all add: example_chunk_def js_div_def)
  from chunk_progress_follows_chunk_index [OF key, of example_decrypt "\<lambda>peerId. None"
      "example_chunk 0 [73, 106]"] ord buf fp(3)
  have a: "\<exists>s. activeTransfers (fst (handleFileChunk example_decrypt (\<lambda>peerId. None)
       device_A ''b1'' (example_chunk 0 [73, 106]))) (''b1'' @ '':'' @ filePath (example_chunk 0 [73, 106])) = Some s
       \<and> progress s = Fin (1 / 3)"
    by auto
  from chunk_progress_follows_chunk_index [OF key, of example_decrypt "\<lambda>peerId. None"
      "example_chunk 2 [34]"] more fp(4)
  have b: "\<exists>s. activeTransfers (fst (handleFileChunk example_decrypt (\<lambda>peerId. None)
       device_A ''b1'' (example_chunk 2 [34]))) (''b1'' @ '':'' @ filePath (example_chunk 2 [34])) = Some s
       \<and> progress s = Fin 1"
    by auto
  from a b show ?thesis unfolding fp(1,2) by simp
qed

text \<open>
  The chunk with index 2 of 3 arrives first: one chunk of three is buffered, and the
  progress shown is 1.
\<close>

theorem chunk_progress_counterexample:
  "map_option progress (activeTransfers (fst (handleFileChunk example_decrypt (\<lambda>peerId. None)
       device_A ''b1'' (example_chunk 2 [34]))) ''b1:a.md'') = Some (Fin 1) \<and>
   map_option (\<lambda>t. js_div (length (chunks t)) (total t)) (incomingChunks (fst (handleFileChunk
       example_decrypt (\<lambda>peerId. None) device_A ''b1'' (example_chunk 2 [34]))) ''b1:a.md'')
     = Some (Fin (1 / 3)) \<and>
   Fin 1 \<noteq> Fin (1 / 3)"
  by (simp add: handleFileChunk_def device_A_def example_chunk_def js_div_def Let_def)

section \<open>Properties of the outbound transfer\<close>

lemma prepare_transfer_empty: "prepare_transfer encrypt_data file_path [] sessionKey = []"
  by (simp add: prepare_transfer_def split_chunks.simps)

text \<open>
  C6. The transfer of a file of zero bytes, with the transfer manager and the module
  loaded, and a cipher under which the encryption of zero bytes decrypts to zero bytes:
  exactly one \<open>FILE_CHUNK\<close> goes out, with index 0 and total 1, its ciphertext decrypts
  to zero bytes, and a receiver with the session key and nothing buffered for the file
  writes the file with zero bytes on handling it.
\<close>

theorem empty_file_sends_one_chunk:
  assumes ready: "transferManager_ready st" "module_ready st"
    and empty: "getAbstractFileByPath (vault st) file_path = Some (TFile m [])"
    and cipher: "\<forall>chunk. cdata chunk = fst (encrypt_data sessionKey []) \<and>
                   nonce chunk = snd (encrypt_data sessionKey [])
                   \<longrightarrow> decrypt_chunk chunk sessionKey = Some []"
  shows "\<exists>chunk. sent_chunks (snd (transferFile encrypt_data st file_path peerId sessionKey)) = [chunk] \<and>
           filePath chunk = file_path \<and> chunkIndex chunk = 0 \<and> totalChunks chunk = 1 \<and>
           decrypt_chunk chunk sessionKey = Some [] \<and>
           (\<forall>receiver sender createSessionOffer.
              sessionKeys receiver sender = Some sessionKey \<and>
              incomingChunks receiver (sender @ '':'' @ file_path) = None
              \<longrightarrow> written (snd (handleFileChunk decrypt_chunk createSessionOffer receiver sender chunk))
                    = [(file_path, [])])"
proof -
  let ?chunk = "\<lparr>filePath = file_path, chunkIndex = 0, totalChunks = 1,
                  cdata = fst (encrypt_data sessionKey []), nonce = snd (encrypt_data sessionKey [])\<rparr>"
  have sent: "sent_chunks (snd (transferFile encrypt_data st file_path peerId sessionKey)) = [?chunk]"
    using ready empty by (simp add: transferFile_def prepare_transfer_empty Let_def)
  have dec: "decrypt_chunk ?chunk sessionKey = Some []" using cipher by simp
  have recv: "written (snd (handleFileChunk decrypt_chunk createSessionOffer receiver sender ?chunk))
                = [(file_path, [])]"
    if "sessionKeys receiver sender = Some sessionKey"
      and "incomingChunks receiver (sender @ '':'' @ file_path) = None"
    for receiver sender createSessionOffer
  proof -
    have "written (snd (handleFileChunk decrypt_chunk createSessionOffer receiver sender ?chunk))
           = (case decrypt_all decrypt_chunk sessionKey
                     (map snd (sort_key fst ([] @ [(chunkIndex ?chunk, ?chunk)]))) of
                None \<Rightarrow> []
              | Some parts \<Rightarrow> [(file_path, concat parts)])"
      by (rule handleFileChunk_completes [where n = 1]) (use that in simp_all)
    with dec show ?thesis by simp
  qed
  from sent dec recv show ?thesis by auto
qed

theorem empty_file_sends_one_chunk_witness:
  "sent_chunks (snd (transferFile example_encrypt
       (device_A\<lparr>vault := [(''empty.md'', TFile 7 [])]\<rparr>) ''empty.md'' ''b1'' ''key''))
     = [\<lparr>filePath = ''empty.md'', chunkIndex = 0, totalChunks = 1, cdata = [], nonce = [7]\<rparr>] \<and>
   example_decrypt \<lparr>filePath = ''empty.md'', chunkIndex = 0, totalChunks = 1, cdata = [], nonce = [7]\<rparr>
       ''key'' = Some []"
proof -
  let ?st = "device_A\<lparr>vault := [(''empty.md'', TFile 7 [])]\<rparr>"
  have h: "transferManager_ready ?st" "module_ready ?st"
      "getAbstractFileByPath (vault ?st) ''empty.md'' = Some (TFile 7 [])"
    by (simp_all add: device_A_def getAbstractFileByPath_def)
  have cipher: "\<forall>chunk. cdata chunk = fst (example_encrypt ''key'' []) \<and>
                   nonce chunk = snd (example_encrypt ''key'' [])
                   \<longrightarrow> example_decrypt chunk ''key'' = Some []"
    by (simp add: example_encrypt_def example_decrypt_def)
  from empty_file_sends_one_chunk [where encrypt_data = example_encrypt
      and decrypt_chunk = example_decrypt and sessionKey = "''key''" and peerId = "''b1''", OF h cipher]
  obtain chunk where c: "sent_chunks (snd (transferFile example_encrypt ?st ''empty.md'' ''b1'' ''key'')) = [chunk]"
      "example_decrypt chunk ''key'' = Some []"
    by blast
  have "sent_chunks (snd (transferFile example_encrypt ?st ''empty.md'' ''b1'' ''key''))
     = [\<lparr>filePath = ''empty.md'', chunkIndex = 0, totalChunks = 1, cdata = [], nonce = [7]\<rparr>]"
    by (simp add: transferFile_def prepare_transfer_empty device_A_def getAbstractFileByPath_def
        example_encrypt_def Let_def)
  with c show ?thesis by simp
qed

section \<open>Properties of the pairing\<close>

text \<open>
  C9. A response whose signature does not verify under the responder's public key over the
  request id followed by the initiator's public key (as a signature made over another
  request id does not): no \<open>pairing_success\<close> is emitted, so the paired devices stay as
  they were; and when the response is to a pending request and marked accepted, with the
  module loaded, the attempt is rejected with the invalid-signature error and the request
  is removed.
\<close>

theorem invalid_signature_fails_pairing:
  assumes ident: "identity sec = Some publicKey"
    and bad: "verify_signature (responderPublicKey msg) (requestId msg @ publicKey) (signature msg)
                = Some False"
  shows "on_pairing_events paired (snd (handlePairingResponse verify_signature sec msg)) = paired \<and>
         (requestId msg \<in> pendingRequests sec \<and> status msg = ''accepted'' \<and> wasm_ready sec \<longrightarrow>
            handlePairingResponse verify_signature sec msg
              = (sec\<lparr>pendingRequests := pendingRequests sec - {requestId msg}\<rparr>,
                 [Rejected (requestId msg) ''Invalid signature from peer'']))"
proof
  show "on_pairing_events paired (snd (handlePairingResponse verify_signature sec msg)) = paired"
    using ident bad by (simp add: handlePairingResponse_def Let_def)
  show "requestId msg \<in> pendingRequests sec \<and> status msg = ''accepted'' \<and> wasm_ready sec \<longrightarrow>
            handlePairingResponse verify_signature sec msg
              = (sec\<lparr>pendingRequests := pendingRequests sec - {requestId msg}\<rparr>,
                 [Rejected (requestId msg) ''Invalid signature from peer''])"
    using ident bad by (simp add: handlePairingResponse_def)
qed

theorem invalid_signature_fails_pairing_witness:
  "handlePairingResponse example_verify initiator
      \<lparr>requestId = ''r1'', responderDeviceId = ''dB'', responderName = ''B'',
       responderPublicKey = ''pkB'', signature = ''sig(pkB,r2pkA)'', status = ''accepted''\<rparr>
     = (initiator\<lparr>pendingRequests := {}\<rparr>, [Rejected ''r1'' ''Invalid signature from peer'']) \<and>
   on_pairing_events [''dC''] (snd (handlePairingResponse example_verify initiator
      \<lparr>requestId = ''r1'', responderDeviceId = ''dB'', responderName = ''B'',
       responderPublicKey = ''pkB'', signature = ''sig(pkB,r2pkA)'', status = ''accepted''\<rparr>)) = [''dC'']"
proof -
  let ?msg = "\<lparr>requestId = ''r1'', responderDeviceId = ''dB'', responderName = ''B'',
       responderPublicKey = ''pkB'', signature = ''sig(pkB,r2pkA)'', status = ''accepted''\<rparr>"
  have h: "identity initiator = Some ''pkA''"
      "example_verify (responderPublicKey ?msg) (requestId ?msg @ ''pkA'') (signature ?msg) = Some False"
    by (simp_all add: initiator_def example_verify_def)
  have run: "requestId ?msg \<in> pendingRequests initiator \<and> status ?msg = ''accepted'' \<and> wasm_ready initiator"
    by (simp add: initiator_def)
  have "pendingRequests initiator - {requestId ?msg} = {}"
    by (simp add: initiator_def)
  with invalid_signature_fails_pairing [where verify_signature = example_verify
      and paired = "[''dC'']", OF h] run show ?thesis by simp
qed

text \<open>The same response with the signature over the pending request id does pair.\<close>

lemma valid_signature_pairs:
  "handlePairingResponse example_verify initiator
      \<lparr>requestId = ''r1'', responderDeviceId = ''dB'', responderName = ''B'',
       responderPublicKey = ''pkB'', signature = ''sig(pkB,r1pkA)'', status = ''accepted''\<rparr>
     = (initiator\<lparr>pendingRequests := {}\<rparr>, [Resolved ''r1'' True, pairing_success ''dB'' ''B''])"
  by (simp add: handlePairingResponse_def initiator_def example_verify_def)

section \<open>Properties of the discovery service\<close>

lemma inv_clearPeerTTLTimer:
  assumes "timers_of_known_peers s"
  shows "timers_of_known_peers (clearPeerTTLTimer p s)"
    and "ttlTimers (clearPeerTTLTimer p s) p = None"
    and "peers (clearPeerTTLTimer p s) = peers s"
    and "\<forall>(h, q) \<in> set (scheduled (clearPeerTTLTimer p s)). q \<noteq> p"
  using assms
  by (auto simp: timers_of_known_peers_def clearPeerTTLTimer_def clearTimeout_def
      split: option.splits)

lemma scheduled_clearPeerTTLTimer:
  "set (scheduled (clearPeerTTLTimer p s)) \<subseteq> set (scheduled s)"
  by (auto simp: clearPeerTTLTimer_def clearTimeout_def split: option.splits)

lemma inv_resetPeerTTL:
  assumes "dom (ttlTimers s) \<subseteq> dom (peers s)"
    and "\<forall>(h, q) \<in> set (scheduled s). ttlTimers s q = Some h"
    and "p \<in> dom (peers s)"
  shows "timers_of_known_peers (resetPeerTTL p s)"
proof -
  have inv: "timers_of_known_peers s" using assms by (simp add: timers_of_known_peers_def)
  let ?s1 = "clearPeerTTLTimer p s"
  note c = inv_clearPeerTTLTimer [OF inv, of p]
  from c(1) have d: "dom (ttlTimers ?s1) \<subseteq> dom (peers ?s1)"
    and sch: "\<forall>(h, q) \<in> set (scheduled ?s1). ttlTimers ?s1 q = Some h"
    by (auto simp: timers_of_known_peers_def)
  show ?thesis
    using d sch c(3,4) assms(3)
    by (auto simp: timers_of_known_peers_def resetPeerTTL_def Let_def)
qed

lemma inv_clearAllTTLTimers:
  assumes "\<forall>(h, q) \<in> set (scheduled s). ttlTimers s q = Some h"
  shows "timers_of_known_peers (clearAllTTLTimers s)"
  using assms by (auto simp: timers_of_known_peers_def clearAllTTLTimers_def ran_def)

lemma inv_removePeer:
  assumes "timers_of_known_peers s"
  shows "timers_of_known_peers (fst (removePeer p s))"
proof (cases "peers s p")
  case None
  with assms show ?thesis by (simp add: removePeer_def)
next
  case (Some peer)
  let ?s0 = "s\<lparr>peers := (peers s)(p := None)\<rparr>"
  have "timers_of_known_peers (clearPeerTTLTimer p ?s0)"
    using assms
    by (auto simp: timers_of_known_peers_def clearPeerTTLTimer_def clearTimeout_def
        split: option.splits)
  with Some show ?thesis by (simp add: removePeer_def)
qed

lemma inv_clearTimeout:
  assumes "timers_of_known_peers s"
  shows "timers_of_known_peers (clearTimeout h s)"
  using assms by (auto simp: timers_of_known_peers_def clearTimeout_def)

lemma inv_step:
  assumes inv: "timers_of_known_peers s"
  shows "timers_of_known_peers (fst (discovery_step op s))"
proof (cases op)
  case Initialize
  with inv show ?thesis by (simp add: initialize_def timers_of_known_peers_def)
next
  case (StartDiscovery started)
  with inv show ?thesis by (simp add: startDiscovery_def timers_of_known_peers_def)
next
  case StopDiscovery
  from inv have "timers_of_known_peers
      (clearAllTTLTimers (s\<lparr>broadcastInterval := False, pruneInterval := False, isDiscovering := False\<rparr>))"
    by (intro inv_clearAllTTLTimers) (simp add: timers_of_known_peers_def)
  with StopDiscovery inv show ?thesis by (simp add: stopDiscovery_def)
next
  case (Announcement isNewOrUpdated data)
  have "timers_of_known_peers (resetPeerTTL (peer_id peer) (s\<lparr>peers := (peers s)(peer_id peer \<mapsto> peer)\<rparr>))"
    for peer
    using inv by (intro inv_resetPeerTTL) (auto simp: timers_of_known_peers_def)
  with Announcement inv show ?thesis
    by (simp add: handleDiscoveryMessage_def Let_def split: option.splits bool.splits)
next
  case (AddPeer peer)
  have "timers_of_known_peers (resetPeerTTL (peer_id peer) (s\<lparr>peers := (peers s)(peer_id peer \<mapsto> peer)\<rparr>))"
    using inv by (intro inv_resetPeerTTL) (auto simp: timers_of_known_peers_def)
  with AddPeer inv show ?thesis by (simp add: addPeer_def Let_def)
next
  case (RemovePeer peerId)
  with inv_removePeer [OF inv] show ?thesis by simp
next
  case ClearPeers
  from inv have "timers_of_known_peers (clearAllTTLTimers (s\<lparr>peers := Map.empty\<rparr>))"
    by (intro inv_clearAllTTLTimers) (simp add: timers_of_known_peers_def)
  with ClearPeers show ?thesis by (simp add: clearPeers_def)
next
  case Cleanup
  have stop: "timers_of_known_peers (fst (stopDiscovery s))"
  proof -
    from inv have "timers_of_known_peers
        (clearAllTTLTimers (s\<lparr>broadcastInterval := False, pruneInterval := False, isDiscovering := False\<rparr>))"
      by (intro inv_clearAllTTLTimers) (simp add: timers_of_known_peers_def)
    with inv show ?thesis by (simp add: stopDiscovery_def)
  qed
  have "timers_of_known_peers (clearAllTTLTimers ((fst (stopDiscovery s))\<lparr>peers := Map.empty\<rparr>))"
    using stop by (intro inv_clearAllTTLTimers) (simp add: timers_of_known_peers_def)
  with Cleanup show ?thesis by (auto simp: cleanup_def clearPeers_def split: prod.splits)
next
  case (TtlExpired timer)
  show ?thesis
  proof (cases "map_of (scheduled s) timer")
    case None
    with TtlExpired inv show ?thesis by (simp add: ttl_expired_def)
  next
    case (Some peerId)
    from inv_removePeer [OF inv_clearTimeout [OF inv, of timer], of peerId] Some TtlExpired
    show ?thesis by (simp add: ttl_expired_def)
  qed
qed

lemma inv_run:
  "timers_of_known_peers s \<Longrightarrow> timers_of_known_peers (discovery_run ops s)"
  by (induction ops arbitrary: s) (simp_all add: inv_step)

lemma inv_constructor: "timers_of_known_peers constructor"
  by (simp add: timers_of_known_peers_def constructor_def)

text \<open>
  C10. In every state the service reaches from its construction by its operations and by
  expiring timeouts, every peer with a TTL timer in the table is a peer of the peer table.
  Each operation keeps this, together with the fact that every pending timeout is the one
  the table holds for its peer; so the peer a timeout fires for is in the peer table.
\<close>

theorem ttl_timers_belong_to_known_peers:
  "timers_of_known_peers (discovery_run ops constructor) \<and>
   (timers_of_known_peers s \<longrightarrow>
      timers_of_known_peers (fst (discovery_step op s)) \<and>
      dom (ttlTimers s) \<subseteq> dom (peers s) \<and>
      (\<forall>timer peerId. map_of (scheduled s) timer = Some peerId \<longrightarrow> peers s peerId \<noteq> None))"
proof (intro conjI impI allI)
  show "timers_of_known_peers (discovery_run ops constructor)"
    by (rule inv_run [OF inv_constructor])
next
  assume inv: "timers_of_known_peers s"
  then show "timers_of_known_peers (fst (discovery_step op s))" by (rule inv_step)
  from inv show "dom (ttlTimers s) \<subseteq> dom (peers s)" by (simp add: timers_of_known_peers_def)
  fix timer peerId
  assume "map_of (scheduled s) timer = Some peerId"
  then have "(timer, peerId) \<in> set (scheduled s)" by (rule map_of_SomeD)
  with inv have "ttlTimers s peerId = Some timer" by (auto simp: timers_of_known_peers_def)
  with inv show "peers s peerId \<noteq> None" by (auto simp: timers_of_known_peers_def)
qed

theorem ttl_timers_belong_to_known_peers_witness:
  "timers_of_known_peers
     (discovery_run [Initialize, StartDiscovery True, Announcement (Some True) (Some laptop)] constructor) \<and>
   map_of (scheduled
     (discovery_run [Initialize, StartDiscovery True, Announcement (Some True) (Some laptop)] constructor)) 1
     = Some ''a1'' \<and>
   peers (discovery_run [Initialize, StartDiscovery True, Announcement (Some True) (Some laptop)] constructor)
     ''a1'' = Some laptop \<and>
   timers_of_known_peers (fst (discovery_step (TtlExpired 1)
     (discovery_run [Initialize, StartDiscovery True, Announcement (Some True) (Some laptop)] constructor)))"
proof -
  let ?ops = "[Initialize, StartDiscovery True, Announcement (Some True) (Some laptop)]"
  let ?s = "discovery_run ?ops constructor"
  note inst = ttl_timers_belong_to_known_peers [of ?ops ?s "TtlExpired 1"]
  from inst have inv: "timers_of_known_peers ?s" by (rule conjunct1)
  with inst have step: "timers_of_known_peers (fst (discovery_step (TtlExpired 1) ?s))" by blast
  have sch: "map_of (scheduled ?s) 1 = Some ''a1''"
    by (simp add: constructor_def initialize_def startDiscovery_def handleDiscoveryMessage_def
        resetPeerTTL_def clearPeerTTLTimer_def laptop_def Let_def)
  have known: "peers ?s ''a1'' = Some laptop"
    by (simp add: constructor_def initialize_def startDiscovery_def handleDiscoveryMessage_def
        resetPeerTTL_def clearPeerTTLTimer_def laptop_def Let_def)
  from inv sch known step show ?thesis by blast
qed

end
